theory Spec2Isabelle
  imports Complex_Main
begin

section \<open>Photon simulator spectral models\<close>

text \<open>
  A shallow embedding of \<^verbatim>\<open>yt/analysis_modules/photon_simulator/spectral_models.py\<close>:
  the energy grid of \<^verbatim>\<open>SpectralModel\<close>, the table-driven emission model
  \<^verbatim>\<open>TableApecModel\<close> and the table-driven absorption model \<^verbatim>\<open>TableAbsorbModel\<close>.

  Conventions of the embedding.
  \<^item> A NumPy array of one dimension is a list; the double-precision numbers in it are
    real numbers, so rounding, infinities and NaN are not part of the model, and a
    division by zero (which NumPy answers with \<open>inf\<close> or \<open>nan\<close>, HOL with \<open>0\<close>) is
    kept away from by the hypotheses of the theorems that could meet one.
  \<^item> The unit tags of \<^verbatim>\<open>YTQuantity\<close> and \<^verbatim>\<open>YTArray\<close> are dropped: the values are the
    numbers in keV, cm**2, cm**-2 and cm**3/s that the source writes.
  \<^item> A raised exception is the left summand of a result; a method that can raise after
    it has already assigned fields returns the object together with the exception.
  \<^item> Library routines (\<^verbatim>\<open>np.linspace\<close>, \<^verbatim>\<open>np.searchsorted\<close>, \<^verbatim>\<open>np.interp\<close>, \<^verbatim>\<open>np.diff\<close>)
    are written out as NumPy implements them.
\<close>

subsection \<open>Exceptions\<close>

datatype py_error =
    IOError string
  | ValueError
  | IndexError
  | KeyError
  | AttributeError
  | ZeroDivisionError

subsection \<open>NumPy routines\<close>

text \<open>\<^verbatim>\<open>np.zeros(n)\<close>: a negative dimension is a \<^verbatim>\<open>ValueError\<close>.\<close>

definition np_zeros :: "int \<Rightarrow> py_error + real list" where
  "np_zeros n = (if n < 0 then Inl ValueError else Inr (replicate (nat n) 0))"

text \<open>\<^verbatim>\<open>np.diff(a)\<close> on one axis is \<^verbatim>\<open>a[1:] - a[:-1]\<close>.\<close>

definition np_diff :: "real list \<Rightarrow> real list" where
  "np_diff a = map2 (\<lambda>hi lo. hi - lo) (tl a) (butlast a)"

text \<open>
  \<^verbatim>\<open>np.linspace(start, stop, num)\<close> with the default \<^verbatim>\<open>endpoint=True\<close>:
  \<^verbatim>\<open>y = arange(0, num) * step + start\<close> with \<^verbatim>\<open>step = (stop - start) / (num - 1)\<close>, and then
  \<^verbatim>\<open>y[-1] = stop\<close> when \<^verbatim>\<open>num > 1\<close>. One sample is \<^verbatim>\<open>[start]\<close>, no sample the empty array, and
  a negative number of samples is refused.
\<close>

definition linspace :: "real \<Rightarrow> real \<Rightarrow> int \<Rightarrow> py_error + real list" where
  "linspace start stop num =
     (if num < 0 then Inl ValueError
      else if num = 0 then Inr []
      else if num = 1 then Inr [start]
      else let step = (stop - start) / real (nat num - 1)
           in Inr (map (\<lambda>i. real i * step + start) [0..<nat num - 1] @ [stop]))"

text \<open>
  \<^verbatim>\<open>np.searchsorted(a, v, side)\<close>: the bisection loop of NumPy's \<^verbatim>\<open>npy_binsearch\<close>. With
  \<^verbatim>\<open>side='left'\<close>, the default, the loop moves right while \<^verbatim>\<open>a[mid] < v\<close>, with
  \<^verbatim>\<open>side='right'\<close> while \<^verbatim>\<open>a[mid] <= v\<close>. On a sorted array the result is the insertion
  point of the documentation: the number of entries below \<open>v\<close>, respectively not above
  \<open>v\<close> (lemmas \<open>searchsorted_left_sorted\<close> and \<open>searchsorted_right_sorted\<close>).
\<close>

function binsearch :: "('a \<Rightarrow> bool) \<Rightarrow> 'a list \<Rightarrow> nat \<Rightarrow> nat \<Rightarrow> nat" where
  "binsearch below a min_idx max_idx =
     (if min_idx < max_idx
      then let mid_idx = min_idx + (max_idx - min_idx) div 2
           in if below (a ! mid_idx)
              then binsearch below a (mid_idx + 1) max_idx
              else binsearch below a min_idx mid_idx
      else min_idx)"
  by pat_completeness auto
termination
  by (relation "measure (\<lambda>(below, a, min_idx, max_idx). max_idx - min_idx)") auto

declare binsearch.simps [simp del]

definition searchsorted_left :: "'a::linorder list \<Rightarrow> 'a \<Rightarrow> nat" where
  "searchsorted_left a v = binsearch (\<lambda>x. x < v) a 0 (length a)"

definition searchsorted_right :: "'a::linorder list \<Rightarrow> 'a \<Rightarrow> nat" where
  "searchsorted_right a v = binsearch (\<lambda>x. x \<le> v) a 0 (length a)"

text \<open>\<^verbatim>\<open>a.min()\<close> and \<^verbatim>\<open>a.max()\<close>: the reduction of an empty array is a \<^verbatim>\<open>ValueError\<close>.\<close>

definition np_min :: "real list \<Rightarrow> py_error + real" where
  "np_min a = (if a = [] then Inl ValueError else Inr (fold min (tl a) (hd a)))"

definition np_max :: "real list \<Rightarrow> py_error + real" where
  "np_max a = (if a = [] then Inl ValueError else Inr (fold max (tl a) (hd a)))"

text \<open>
  \<^verbatim>\<open>np.interp(x, xp, fp)\<close>: constant outside the sample points, linear between two of
  them; the interval is found by bisection. An empty \<^verbatim>\<open>xp\<close> and an \<^verbatim>\<open>fp\<close> of another length
  are refused.
\<close>

definition interp_at :: "real list \<Rightarrow> real list \<Rightarrow> real \<Rightarrow> real" where
  "interp_at xp fp x =
     (let lenxp = length xp in
      if lenxp = 1 then fp ! 0
      else if x > xp ! (lenxp - 1) then fp ! (lenxp - 1)
      else if x < xp ! 0 then fp ! 0
      else let c = searchsorted_right xp x in
        if c = 0 then fp ! 0
        else let j = c - 1 in
          if j = lenxp - 1 then fp ! j
          else if xp ! j = x then fp ! j
          else (fp ! (j + 1) - fp ! j) / (xp ! (j + 1) - xp ! j) * (x - xp ! j) + fp ! j)"

definition np_interp :: "real list \<Rightarrow> real list \<Rightarrow> real list \<Rightarrow> py_error + real list" where
  "np_interp x xp fp =
     (if xp = [] then Inl ValueError
      else if length fp \<noteq> length xp then Inl ValueError
      else Inr (map (interp_at xp fp) x))"

subsection \<open>Python indexing, slicing and sequencing\<close>

text \<open>Sequencing of two steps, the first of which may raise.\<close>

definition bind_err :: "py_error + 'a \<Rightarrow> ('a \<Rightarrow> py_error + 'b) \<Rightarrow> py_error + 'b" where
  "bind_err r f = (case r of Inl err \<Rightarrow> Inl err | Inr v \<Rightarrow> f v)"

text \<open>Reading an attribute that no statement has assigned yet.\<close>

definition attr :: "'a option \<Rightarrow> py_error + 'a" where
  "attr field = (case field of None \<Rightarrow> Inl AttributeError | Some v \<Rightarrow> Inr v)"

text \<open>\<^verbatim>\<open>a[i]\<close> for an index that is not negative.\<close>

definition getitem :: "'a list \<Rightarrow> nat \<Rightarrow> py_error + 'a" where
  "getitem a i = (if i < length a then Inr (a ! i) else Inl IndexError)"

text \<open>\<^verbatim>\<open>a[:n]\<close>; a negative \<^verbatim>\<open>n\<close> counts from the end.\<close>

definition slice_to :: "int \<Rightarrow> 'a list \<Rightarrow> 'a list" where
  "slice_to n a = (if 0 \<le> n then take (nat n) a else take (length a - nat (- n)) a)"

text \<open>
  An index into an array of length \<open>n\<close>: a negative index counts from the end, and the
  index is valid when the result lies in \<open>0..<n\<close>.
\<close>

definition wrap_index :: "int \<Rightarrow> int \<Rightarrow> int" where
  "wrap_index n i = (if i < 0 then n + i else i)"

text \<open>\<^verbatim>\<open>vec[i] += a\<close> on an array.\<close>

definition add_at :: "real list \<Rightarrow> int \<Rightarrow> real \<Rightarrow> py_error + real list" where
  "add_at vec i a =
     (let n = int (length vec); j = wrap_index n i
      in if 0 \<le> j \<and> j < n then Inr (vec[nat j := vec ! nat j + a]) else Inl IndexError)"

text \<open>\<^verbatim>\<open>os.path.join(a, b)\<close> on POSIX paths.\<close>

definition path_join :: "string \<Rightarrow> string \<Rightarrow> string" where
  "path_join a b =
     (if b \<noteq> [] \<and> hd b = CHR ''/'' then b
      else if a = [] \<or> last a = CHR ''/'' then a @ b
      else a @ ''/'' @ b)"

subsection \<open>Constants and routines from outside the file\<close>

text \<open>
  The module reads \<^verbatim>\<open>hcgs\<close>, \<^verbatim>\<open>clight\<close>, \<^verbatim>\<open>erg_per_keV\<close> and \<^verbatim>\<open>amu_cgs\<close> from
  \<^verbatim>\<open>yt.utilities.physical_constants\<close> and the Gaussian distribution function from SciPy.
  They are parameters of the model: \<open>hc\<close> is \<^verbatim>\<open>(hcgs*clight).in_units("keV*angstrom").v\<close>,
  \<open>cl\<close> is \<^verbatim>\<open>clight.v\<close>, and \<open>norm_cdf E sig x\<close> is \<^verbatim>\<open>_scipy.stats.norm(E,sig).cdf(x)\<close>.
\<close>

record physics =
  hc :: real
  cl :: real
  erg_per_keV :: real
  amu_cgs :: real
  norm_cdf :: "real \<Rightarrow> real \<Rightarrow> real \<Rightarrow> real"

subsection \<open>Table files\<close>

text \<open>
  A FITS file is its list of header-data units. In an APEC line file unit 1 holds the
  temperature grid (column \<^verbatim>\<open>kT\<close>) and the units from 2 on hold the lines of one
  temperature each (columns \<^verbatim>\<open>element\<close>, \<^verbatim>\<open>lambda\<close>, \<^verbatim>\<open>epsilon\<close>); the continuum file has
  the same layout with the columns \<^verbatim>\<open>Z\<close>, \<^verbatim>\<open>rmJ\<close>, \<^verbatim>\<open>N_Cont\<close>, \<^verbatim>\<open>E_Cont\<close>, \<^verbatim>\<open>Continuum\<close>,
  \<^verbatim>\<open>N_Pseudo\<close>, \<^verbatim>\<open>E_Pseudo\<close>, \<^verbatim>\<open>Pseudo\<close>. The absorption table is an HDF5 file with the
  datasets \<^verbatim>\<open>energy\<close> and \<^verbatim>\<open>cross_section\<close>.
\<close>

record line_row =
  element :: nat
  lambda :: real
  epsilon :: real

record coco_row =
  Z :: nat
  rmJ :: int
  N_Cont :: int
  E_Cont :: "real list"
  Continuum :: "real list"
  N_Pseudo :: int
  E_Pseudo :: "real list"
  Pseudo :: "real list"

datatype hdu =
    PrimaryHDU
  | ParameterHDU "real list"
  | LineHDU "line_row list"
  | CocoHDU "coco_row list"

record h5table =
  energy :: "real list"
  cross_section :: "real list"

datatype table_file = FitsFile "hdu list" | H5File h5table

type_synonym filesystem = "string \<Rightarrow> table_file option"

text \<open>\<^verbatim>\<open>hdu.data.field(name)\<close>: the primary unit has no data, another unit not every column.\<close>

fun field_kT :: "hdu \<Rightarrow> py_error + real list" where
  "field_kT (ParameterHDU ks) = Inr ks"
| "field_kT PrimaryHDU = Inl AttributeError"
| "field_kT _ = Inl KeyError"

fun line_fields :: "hdu \<Rightarrow> py_error + line_row list" where
  "line_fields (LineHDU rows) = Inr rows"
| "line_fields PrimaryHDU = Inl AttributeError"
| "line_fields _ = Inl KeyError"

fun coco_fields :: "hdu \<Rightarrow> py_error + coco_row list" where
  "coco_fields (CocoHDU rows) = Inr rows"
| "coco_fields PrimaryHDU = Inl AttributeError"
| "coco_fields _ = Inl KeyError"

text \<open>\<^verbatim>\<open>_astropy.pyfits.open(path)\<close>: an \<^verbatim>\<open>IOError\<close> unless the path holds a FITS file.\<close>

definition pyfits_open :: "filesystem \<Rightarrow> string \<Rightarrow> py_error + hdu list" where
  "pyfits_open fs path =
     (case fs path of Some (FitsFile hdus) \<Rightarrow> Inr hdus | _ \<Rightarrow> Inl (IOError path))"

subsection \<open>The energy grid: \<^verbatim>\<open>SpectralModel.__init__\<close>\<close>

record SpectralModel =
  emin :: real
  emax :: real
  nchan :: int
  ebins :: "real list"
  de :: "real list"
  emid :: "real list"

definition SpectralModel_init :: "real \<Rightarrow> real \<Rightarrow> int \<Rightarrow> py_error + SpectralModel" where
  "SpectralModel_init e_lo e_hi n =
     bind_err (linspace e_lo e_hi (n + 1)) (\<lambda>eb.
       Inr \<lparr>emin = e_lo, emax = e_hi, nchan = n, ebins = eb, de = np_diff eb,
            emid = map2 (\<lambda>hi lo. 0.5 * (hi + lo)) (tl eb) (butlast eb)\<rparr>)"

subsection \<open>The emission model: \<^verbatim>\<open>TableApecModel\<close>\<close>

text \<open>
  The attributes that only \<^verbatim>\<open>prepare_spectrum\<close> assigns are optional fields: \<open>None\<close> until
  the assignment has run.
\<close>

record TableApecModel = SpectralModel +
  apec_root :: string
  apec_prefix :: string
  cocofile :: string
  linefile :: string
  wvbins :: "real list"
  cosmic_elem :: "nat list"
  metal_elem :: "nat list"
  thermal_broad :: bool
  A :: "real list"
  line_handle :: "hdu list option"
  coco_handle :: "hdu list option"
  Tvals :: "real list option"
  dTvals :: "real list option"
  minlam :: "real option"
  maxlam :: "real option"
  scale_factor :: "real option"

definition TableApecModel_init ::
  "physics \<Rightarrow> string \<Rightarrow> real \<Rightarrow> real \<Rightarrow> int \<Rightarrow> string \<Rightarrow> bool \<Rightarrow> py_error + TableApecModel" where
  "TableApecModel_init ph root_dir e_lo e_hi n apec_vers broad =
     (let prefix = ''apec_v'' @ apec_vers
      in bind_err (SpectralModel_init e_lo e_hi n) (\<lambda>sm.
           Inr \<lparr>emin = emin sm, emax = emax sm, nchan = nchan sm, ebins = ebins sm,
                de = de sm, emid = emid sm,
                apec_root = root_dir,
                apec_prefix = prefix,
                cocofile = path_join root_dir (prefix @ ''_coco.fits''),
                linefile = path_join root_dir (prefix @ ''_line.fits''),
                wvbins = map (\<lambda>e. hc ph / e) (rev (ebins sm)),
                cosmic_elem = [1,2,3,4,5,9,11,15,17,19,21,22,23,24,25,27,29,30],
                metal_elem = [6,7,8,10,12,13,14,16,18,20,26,28],
                thermal_broad = broad,
                A = [0.0,1.00794,4.00262,6.941,9.012182,10.811,
                     12.0107,14.0067,15.9994,18.9984,20.1797,
                     22.9898,24.3050,26.9815,28.0855,30.9738,
                     32.0650,35.4530,39.9480,39.0983,40.0780,
                     44.9559,47.8670,50.9415,51.9961,54.9380,
                     55.8450,58.9332,58.6934,63.5460,65.3800],
                line_handle = None, coco_handle = None, Tvals = None, dTvals = None,
                minlam = None, maxlam = None, scale_factor = None\<rparr>))"

text \<open>
  \<^verbatim>\<open>prepare_spectrum(zobs)\<close> returns the object as the statements that ran have left it,
  the messages written to \<^verbatim>\<open>mylog.error\<close>, and the exception, if one was raised.
\<close>

definition TableApecModel_prepare_spectrum ::
  "filesystem \<Rightarrow> TableApecModel \<Rightarrow> real \<Rightarrow> TableApecModel \<times> string list \<times> py_error option" where
  "TableApecModel_prepare_spectrum fs m zobs =
     (case pyfits_open fs (linefile m) of
        Inl _ \<Rightarrow>
          (m, [''LINE file '' @ linefile m @ '' does not exist''],
           Some (IOError (''LINE file '' @ linefile m @ '' does not exist'')))
      | Inr lh \<Rightarrow>
     let m1 = m\<lparr>line_handle := Some lh\<rparr> in
     (case pyfits_open fs (cocofile m1) of
        Inl _ \<Rightarrow>
          (m1, [''COCO file '' @ cocofile m1 @ '' does not exist''],
           Some (IOError (''COCO file '' @ cocofile m1 @ '' does not exist'')))
      | Inr ch \<Rightarrow>
     let m2 = m1\<lparr>coco_handle := Some ch\<rparr> in
     (case bind_err (getitem lh 1) field_kT of
        Inl err \<Rightarrow> (m2, [], Some err)
      | Inr kTs \<Rightarrow>
     let m3 = m2\<lparr>Tvals := Some kTs\<rparr>;
         m4 = m3\<lparr>dTvals := Some (np_diff kTs)\<rparr> in
     (case np_min (wvbins m4) of
        Inl err \<Rightarrow> (m4, [], Some err)
      | Inr lo \<Rightarrow>
     let m5 = m4\<lparr>minlam := Some lo\<rparr> in
     (case np_max (wvbins m5) of
        Inl err \<Rightarrow> (m5, [], Some err)
      | Inr hi \<Rightarrow>
     let m6 = m5\<lparr>maxlam := Some hi\<rparr> in
     if 1 + zobs = 0 then (m6, [], Some ZeroDivisionError)
     else (m6\<lparr>scale_factor := Some (1 / (1 + zobs))\<rparr>, [], None))))))"

text \<open>
  The lines of \<^verbatim>\<open>_make_spectrum\<close>, in the order of the source. First the selection
  \<^verbatim>\<open>np.where(...)\<close> of the rows of one element inside the wavelength window.
\<close>

definition select_lines :: "line_row list \<Rightarrow> nat \<Rightarrow> real \<Rightarrow> real \<Rightarrow> line_row list" where
  "select_lines rows elem lo hi =
     filter (\<lambda>r. element r = elem \<and> lambda r > lo \<and> lambda r < hi) rows"

text \<open>\<^verbatim>\<open>E0 = hc/lambda[i]*self.scale_factor\<close>.\<close>

definition line_energy :: "physics \<Rightarrow> real \<Rightarrow> line_row \<Rightarrow> real" where
  "line_energy ph sf r = hc ph / lambda r * sf"

text \<open>\<^verbatim>\<open>ie = np.searchsorted(ebins, E0, side='right')-1\<close>, for one line.\<close>

definition channel_index :: "real list \<Rightarrow> real \<Rightarrow> int" where
  "channel_index eb E = int (searchsorted_right eb E) - 1"

text \<open>\<^verbatim>\<open>for i, a in zip(ie, amp): vec[i] += a\<close>.\<close>

fun deposit :: "real list \<Rightarrow> (int \<times> real) list \<Rightarrow> py_error + real list" where
  "deposit vec [] = Inr vec"
| "deposit vec ((i, a) # rest) = bind_err (add_at vec i a) (\<lambda>vec'. deposit vec' rest)"

text \<open>
  \<^verbatim>\<open>for E, sig, a in zip(E0, sigma, amp): cdf = norm(E,sig).cdf(ebins); vec += np.diff(cdf)*a\<close>.
\<close>

definition broaden :: "physics \<Rightarrow> real list \<Rightarrow> real list \<Rightarrow> (real \<times> real \<times> real) list \<Rightarrow> real list" where
  "broaden ph eb vec ls =
     fold (\<lambda>(E, sig, a) v. map2 (+) v (map (\<lambda>d. d * a) (np_diff (map (norm_cdf ph E sig) eb)))) ls vec"

text \<open>The method up to \<^verbatim>\<open>tmpspec += vec\<close>: the contribution of the lines.\<close>

definition line_spectrum :: "physics \<Rightarrow> TableApecModel \<Rightarrow> nat \<Rightarrow> nat \<Rightarrow> py_error + real list" where
  "line_spectrum ph m elem tindex =
     bind_err (np_zeros (nchan m)) (\<lambda>tmpspec.
     bind_err (attr (line_handle m)) (\<lambda>lh.
     bind_err (getitem lh tindex) (\<lambda>h.
     bind_err (line_fields h) (\<lambda>rows.
     bind_err (attr (minlam m)) (\<lambda>lo.
     bind_err (attr (maxlam m)) (\<lambda>hi.
     bind_err (np_zeros (nchan m)) (\<lambda>vec.
     bind_err (attr (scale_factor m)) (\<lambda>sf.
       let i = select_lines rows elem lo hi;
           E0 = map (line_energy ph sf) i;
           amp = map epsilon i
       in bind_err
            (if thermal_broad m
             then bind_err (attr (Tvals m)) (\<lambda>T.
                  bind_err (getitem T tindex) (\<lambda>Tt.
                  bind_err (getitem (A m) elem) (\<lambda>Ae.
                    let sig = map (\<lambda>E. E * sqrt (Tt * erg_per_keV ph / (Ae * amu_cgs ph)) / cl ph) E0
                    in Inr (broaden ph (ebins m) vec (zip E0 (zip sig amp))))))
             else deposit vec (zip (map (channel_index (ebins m)) E0) amp))
            (\<lambda>vec'. Inr (map2 (+) tmpspec vec'))))))))))"

text \<open>
  The rest of the method. The continuum record of the element is the first row with
  \<^verbatim>\<open>rmJ == 0\<close>; without one the lines are returned. Its continuum and pseudo-continuum
  are interpolated at the channel centres, multiplied by the channel widths and added.
\<close>

definition continuum_terms :: "TableApecModel \<Rightarrow> coco_row \<Rightarrow> real list \<Rightarrow> py_error + real list" where
  "continuum_terms m c tmpspec =
     bind_err (attr (scale_factor m)) (\<lambda>sf.
     bind_err (np_interp (emid m)
                 (map (\<lambda>e. e * sf) (slice_to (N_Cont c) (E_Cont c)))
                 (slice_to (N_Cont c) (Continuum c))) (\<lambda>cont.
     let tmpspec1 = map2 (+) tmpspec (map2 (*) cont (de m)) in
     bind_err (np_interp (emid m)
                 (map (\<lambda>e. e * sf) (slice_to (N_Pseudo c) (E_Pseudo c)))
                 (slice_to (N_Pseudo c) (Pseudo c))) (\<lambda>ps.
     Inr (map2 (+) tmpspec1 (map2 (*) ps (de m))))))"

definition add_continuum :: "TableApecModel \<Rightarrow> nat \<Rightarrow> nat \<Rightarrow> real list \<Rightarrow> py_error + real list" where
  "add_continuum m elem tindex tmpspec =
     bind_err (attr (coco_handle m)) (\<lambda>ch.
     bind_err (getitem ch tindex) (\<lambda>h.
     bind_err (coco_fields h) (\<lambda>rows.
       case filter (\<lambda>r. Z r = elem \<and> rmJ r = 0) rows of
         [] \<Rightarrow> Inr tmpspec
       | c # _ \<Rightarrow> continuum_terms m c tmpspec)))"

text \<open>\<^verbatim>\<open>_make_spectrum(element, tindex)\<close>: the lines, then continuum and pseudo-continuum.\<close>

definition TableApecModel_make_spectrum ::
  "physics \<Rightarrow> TableApecModel \<Rightarrow> nat \<Rightarrow> nat \<Rightarrow> py_error + real list" where
  "TableApecModel_make_spectrum ph m elem tindex =
     bind_err (line_spectrum ph m elem tindex) (add_continuum m elem tindex)"

text \<open>
  The two loops of \<^verbatim>\<open>get_spectrum\<close> over an element list: each element adds its spectrum
  at block \<^verbatim>\<open>tindex+2\<close> to the left sum and at block \<^verbatim>\<open>tindex+3\<close> to the right sum.
\<close>

fun accumulate ::
  "physics \<Rightarrow> TableApecModel \<Rightarrow> nat \<Rightarrow> nat list \<Rightarrow> real list \<Rightarrow> real list \<Rightarrow>
     py_error + (real list \<times> real list)" where
  "accumulate ph m tindex [] spec_l spec_r = Inr (spec_l, spec_r)"
| "accumulate ph m tindex (elem # elems) spec_l spec_r =
     bind_err (TableApecModel_make_spectrum ph m elem (tindex + 2)) (\<lambda>l.
     bind_err (TableApecModel_make_spectrum ph m elem (tindex + 3)) (\<lambda>r.
       accumulate ph m tindex elems (map2 (+) spec_l l) (map2 (+) spec_r r)))"

text \<open>
  For comparison with the loops: the sum of \<^verbatim>\<open>_make_spectrum\<close> over an element list at
  one table block, added to a start array; it raises when one of the summands raises.
\<close>

fun element_sum ::
  "physics \<Rightarrow> TableApecModel \<Rightarrow> nat \<Rightarrow> nat list \<Rightarrow> real list \<Rightarrow> py_error + real list" where
  "element_sum ph m block [] spec = Inr spec"
| "element_sum ph m block (elem # elems) spec =
     bind_err (TableApecModel_make_spectrum ph m elem block) (\<lambda>s.
       element_sum ph m block elems (map2 (+) spec s))"

text \<open>\<^verbatim>\<open>tindex = np.searchsorted(self.Tvals, kT)-1\<close>.\<close>

definition temperature_index :: "real list \<Rightarrow> real \<Rightarrow> int" where
  "temperature_index T kT = int (searchsorted_left T kT) - 1"

text \<open>\<^verbatim>\<open>dT = (kT-self.Tvals[tindex])/self.dTvals[tindex]\<close>.\<close>

definition interpolation_fraction :: "real list \<Rightarrow> real list \<Rightarrow> nat \<Rightarrow> real \<Rightarrow> py_error + real" where
  "interpolation_fraction T dTv tindex kT =
     bind_err (getitem T tindex) (\<lambda>Tt.
     bind_err (getitem dTv tindex) (\<lambda>dTt. Inr ((kT - Tt) / dTt)))"

text \<open>\<^verbatim>\<open>spec_l*(1.-dT)+spec_r*dT\<close>.\<close>

definition blend :: "real \<Rightarrow> real list \<Rightarrow> real list \<Rightarrow> real list" where
  "blend dT spec_l spec_r = map2 (\<lambda>l r. l * (1 - dT) + r * dT) spec_l spec_r"

definition TableApecModel_get_spectrum ::
  "physics \<Rightarrow> TableApecModel \<Rightarrow> real \<Rightarrow> py_error + (real list \<times> real list)" where
  "TableApecModel_get_spectrum ph m kT =
     bind_err (np_zeros (nchan m)) (\<lambda>zero.
     bind_err (attr (Tvals m)) (\<lambda>T.
       let tindex = temperature_index T kT in
       if tindex \<ge> int (length T) - 1 \<or> tindex < 0 then Inr (zero, zero)
       else
         bind_err (attr (dTvals m)) (\<lambda>dTv.
         bind_err (interpolation_fraction T dTv (nat tindex) kT) (\<lambda>dT.
         bind_err (accumulate ph m (nat tindex) (cosmic_elem m) zero zero) (\<lambda>(cspec_l, cspec_r).
         bind_err (accumulate ph m (nat tindex) (metal_elem m) zero zero) (\<lambda>(mspec_l, mspec_r).
           Inr (blend dT cspec_l cspec_r, blend dT mspec_l mspec_r)))))))"


subsection \<open>The absorption model: \<^verbatim>\<open>TableAbsorbModel\<close>\<close>

record TableAbsorbModel = SpectralModel +
  filename :: string
  sigma :: "real list"
  nH :: real

text \<open>
  The constructor raises for a path that does not exist, opens the file with \<^verbatim>\<open>h5py\<close>
  (which refuses a file that is not HDF5), reads the span of \<^verbatim>\<open>energy\<close> and the
  \<^verbatim>\<open>cross_section\<close> array, builds the grid and stores \<^verbatim>\<open>nH*1.0e22\<close>.
\<close>

definition TableAbsorbModel_init :: "filesystem \<Rightarrow> string \<Rightarrow> real \<Rightarrow> py_error + TableAbsorbModel" where
  "TableAbsorbModel_init fs fname column =
     (case fs fname of
        None \<Rightarrow> Inl (IOError (''File does not exist: '' @ fname @ ''.''))
      | Some (FitsFile _) \<Rightarrow> Inl (IOError fname)
      | Some (H5File f) \<Rightarrow>
          bind_err (np_min (energy f)) (\<lambda>e_lo.
          bind_err (np_max (energy f)) (\<lambda>e_hi.
          bind_err (SpectralModel_init e_lo e_hi (int (length (cross_section f)))) (\<lambda>sm.
            Inr \<lparr>emin = emin sm, emax = emax sm, nchan = nchan sm, ebins = ebins sm,
                 de = de sm, emid = emid sm,
                 filename = fname, sigma = cross_section f, nH = column * 10 ^ 22\<rparr>))))"

definition TableAbsorbModel_prepare_spectrum :: "TableAbsorbModel \<Rightarrow> TableAbsorbModel" where
  "TableAbsorbModel_prepare_spectrum m = m"

definition TableAbsorbModel_get_spectrum :: "TableAbsorbModel \<Rightarrow> real list" where
  "TableAbsorbModel_get_spectrum m = map (\<lambda>s. exp (- s * nH m)) (sigma m)"

subsection \<open>Sample tables\<close>

text \<open>
  A small table set on which the theorems below are instantiated: a temperature grid of
  1, 2 and 3 keV, lines of helium (a trace element) and oxygen (a metal), one continuum
  record for helium, and two absorption tables. The directory \<^verbatim>\<open>/lineonly\<close> holds a line
  file and no continuum file. The sample model is built without thermal broadening, so
  the distribution function of \<open>sample_physics\<close> is never consulted.
\<close>

definition sample_physics :: physics where
  "sample_physics =
     \<lparr>hc = 12.3984193, cl = 29979245800, erg_per_keV = 1.602176565 / 10 ^ 9,
      amu_cgs = 1.660538921 / 10 ^ 24, norm_cdf = (\<lambda>E sig x. if x < E then 0 else 1)\<rparr>"

definition sample_line_hdus :: "hdu list" where
  "sample_line_hdus =
     [PrimaryHDU,
      ParameterHDU [1, 2, 3],
      LineHDU [\<lparr>element = 2, lambda = 10, epsilon = 4\<rparr>,
               \<lparr>element = 8, lambda = 8, epsilon = 6\<rparr>,
               \<lparr>element = 2, lambda = 20, epsilon = 100\<rparr>],
      LineHDU [\<lparr>element = 2, lambda = 10, epsilon = 8\<rparr>,
               \<lparr>element = 8, lambda = 8, epsilon = 2\<rparr>],
      LineHDU [\<lparr>element = 2, lambda = 7, epsilon = 2\<rparr>]]"

definition sample_coco_hdus :: "hdu list" where
  "sample_coco_hdus =
     [PrimaryHDU,
      ParameterHDU [1, 2, 3],
      CocoHDU [\<lparr>Z = 2, rmJ = 0, N_Cont = 2, E_Cont = [1, 2, 0], Continuum = [2, 4, 0],
                N_Pseudo = 1, E_Pseudo = [1, 0, 0], Pseudo = [0, 0, 0]\<rparr>],
      CocoHDU [],
      CocoHDU []]"

definition sample_fs :: filesystem where
  "sample_fs path =
     (if path = ''/atomdb/apec_v2.0.2_line.fits'' then Some (FitsFile sample_line_hdus)
      else if path = ''/atomdb/apec_v2.0.2_coco.fits'' then Some (FitsFile sample_coco_hdus)
      else if path = ''/lineonly/apec_v2.0.2_line.fits'' then Some (FitsFile sample_line_hdus)
      else if path = ''abs_table.h5''
        then Some (H5File \<lparr>energy = [1, 2, 3], cross_section = [0, 2 / 10 ^ 22]\<rparr>)
      else if path = ''negative.h5''
        then Some (H5File \<lparr>energy = [1, 2], cross_section = [- 1]\<rparr>)
      else None)"

text \<open>
  The emission model on the sample tables: constructed on the grid from 1 to 2 keV with
  two channels, then prepared for a redshift.
\<close>

definition sample_unprepared :: TableApecModel where
  "sample_unprepared =
     projr (TableApecModel_init sample_physics ''/atomdb'' 1 2 2 ''2.0.2'' False)"

definition sample_model :: "real \<Rightarrow> TableApecModel" where
  "sample_model zobs = fst (TableApecModel_prepare_spectrum sample_fs sample_unprepared zobs)"

section \<open>Auxiliary facts\<close>

subsection \<open>Sequencing and arrays\<close>

lemma bind_err_Inr [simp]: "bind_err (Inr v) f = f v"
  by (simp add: bind_err_def)

lemma bind_err_Inl [simp]: "bind_err (Inl err) f = Inl err"
  by (simp add: bind_err_def)

lemma bind_err_eq_Inr:
  "bind_err r f = Inr y \<longleftrightarrow> (\<exists>v. r = Inr v \<and> f v = Inr y)"
  by (cases r) simp_all

lemma linspace_edges:
  assumes "0 < n"
  shows "linspace a b (n + 1) =
           Inr (map (\<lambda>i. real i * ((b - a) / real (nat n)) + a) [0..<nat n] @ [b])"
proof -
  have "nat (n + 1) - 1 = nat n" using assms by simp
  then show ?thesis using assms by (simp add: linspace_def Let_def)
qed


lemma np_diff_length: "length (np_diff a) = length a - 1"
  by (simp add: np_diff_def)

lemma np_diff_nth: "i + 1 < length a \<Longrightarrow> np_diff a ! i = a ! (i + 1) - a ! i"
  by (simp add: np_diff_def nth_tl nth_butlast)


subsection \<open>Bisection\<close>

lemma binsearch_partition:
  assumes "lo \<le> hi" "hi \<le> length a"
    and "\<forall>i<lo. P (a ! i)"
    and "\<forall>i. hi \<le> i \<and> i < length a \<longrightarrow> \<not> P (a ! i)"
    and "\<forall>i j. i \<le> j \<and> j < length a \<and> P (a ! j) \<longrightarrow> P (a ! i)"
  shows "lo \<le> binsearch P a lo hi \<and> binsearch P a lo hi \<le> hi \<and>
         (\<forall>i<binsearch P a lo hi. P (a ! i)) \<and>
         (\<forall>i. binsearch P a lo hi \<le> i \<and> i < length a \<longrightarrow> \<not> P (a ! i))"
  using assms
proof (induction P a lo hi rule: binsearch.induct)
  case (1 P a lo hi)
  show ?case
  proof (cases "lo < hi")
    case False
    then have "binsearch P a lo hi = lo" by (subst binsearch.simps) simp
    with "1.prems" False show ?thesis by auto
  next
    case True
    define mid where "mid = lo + (hi - lo) div 2"
    have mid: "lo \<le> mid" "mid < hi" using True by (auto simp: mid_def)
    show ?thesis
    proof (cases "P (a ! mid)")
      case pm: True
      have eq: "binsearch P a lo hi = binsearch P a (mid + 1) hi"
        using True pm by (subst binsearch.simps) (simp add: mid_def Let_def)
      have below: "\<forall>i<mid + 1. P (a ! i)"
        using "1.prems"(2,5) pm mid by (metis Suc_eq_plus1 less_Suc_eq_le order.strict_trans2)
      have "mid + 1 \<le> binsearch P a (mid + 1) hi \<and> binsearch P a (mid + 1) hi \<le> hi \<and>
         (\<forall>i<binsearch P a (mid + 1) hi. P (a ! i)) \<and>
         (\<forall>i. binsearch P a (mid + 1) hi \<le> i \<and> i < length a \<longrightarrow> \<not> P (a ! i))"
        using "1.IH"(1)[OF True mid_def pm] mid "1.prems" below by simp
      then show ?thesis using eq mid by auto
    next
      case pm: False
      have eq: "binsearch P a lo hi = binsearch P a lo mid"
        using True pm by (subst binsearch.simps) (simp add: mid_def Let_def)
      have above: "\<forall>i. mid \<le> i \<and> i < length a \<longrightarrow> \<not> P (a ! i)"
        using "1.prems"(5) pm by blast
      have "lo \<le> binsearch P a lo mid \<and> binsearch P a lo mid \<le> mid \<and>
         (\<forall>i<binsearch P a lo mid. P (a ! i)) \<and>
         (\<forall>i. binsearch P a lo mid \<le> i \<and> i < length a \<longrightarrow> \<not> P (a ! i))"
        using "1.IH"(2)[OF True mid_def pm] mid "1.prems" above by simp
      then show ?thesis using eq mid by auto
    qed
  qed
qed

text \<open>A prefix on which \<open>P\<close> holds, followed by a suffix on which it fails, is what
  \<open>filter\<close> keeps.\<close>

lemma prefix_filter_length:
  assumes "r \<le> length a" "\<forall>i<r. P (a ! i)" "\<forall>i. r \<le> i \<and> i < length a \<longrightarrow> \<not> P (a ! i)"
  shows "length (filter P a) = r"
proof -
  have a: "a = take r a @ drop r a" by simp
  have "filter P (take r a) = take r a"
    using assms(1,2) by (auto simp: filter_id_conv in_set_conv_nth)
  moreover have "filter P (drop r a) = []"
    using assms(3) by (auto simp: filter_empty_conv in_set_conv_nth)
  ultimately have "filter P a = take r a"
    by (metis a filter_append append_Nil2)
  then show ?thesis using assms(1) by simp
qed

lemma binsearch_count:
  assumes "\<forall>i j. i \<le> j \<and> j < length a \<and> P (a ! j) \<longrightarrow> P (a ! i)"
  shows "binsearch P a 0 (length a) = length (filter P a)"
proof -
  have p: "0 \<le> binsearch P a 0 (length a) \<and> binsearch P a 0 (length a) \<le> length a \<and>
         (\<forall>i<binsearch P a 0 (length a). P (a ! i)) \<and>
         (\<forall>i. binsearch P a 0 (length a) \<le> i \<and> i < length a \<longrightarrow> \<not> P (a ! i))"
    by (rule binsearch_partition[OF _ _ _ _ assms]) auto
  have "length (filter P a) = binsearch P a 0 (length a)"
    by (rule prefix_filter_length) (use p in blast)+
  then show ?thesis by (rule sym)
qed

lemma searchsorted_left_sorted:
  assumes "sorted a"
  shows "searchsorted_left a v = length (filter (\<lambda>x. x < v) a)"
  unfolding searchsorted_left_def
proof (rule binsearch_count, intro allI impI)
  fix i j assume "i \<le> j \<and> j < length a \<and> a ! j < v"
  then show "a ! i < v" using assms by (meson sorted_nth_mono le_less_trans)
qed

lemma searchsorted_right_sorted:
  assumes "sorted a"
  shows "searchsorted_right a v = length (filter (\<lambda>x. x \<le> v) a)"
  unfolding searchsorted_right_def
proof (rule binsearch_count, intro allI impI)
  fix i j assume "i \<le> j \<and> j < length a \<and> a ! j \<le> v"
  then show "a ! i \<le> v" using assms by (meson sorted_nth_mono order_trans)
qed

lemma searchsorted_left_none_below:
  assumes "\<forall>t\<in>set a. v \<le> t"
  shows "searchsorted_left a v = 0"
proof -
  have "binsearch (\<lambda>x. x < v) a 0 (length a) = length (filter (\<lambda>x. x < v) a)"
    using assms by (intro binsearch_count) (auto simp: not_less[symmetric])
  moreover have "filter (\<lambda>x. x < v) a = []"
    using assms by (auto simp: filter_empty_conv)
  ultimately show ?thesis by (simp add: searchsorted_left_def)
qed

lemma searchsorted_left_all_below:
  assumes "\<forall>t\<in>set a. t < v"
  shows "searchsorted_left a v = length a"
proof -
  have "binsearch (\<lambda>x. x < v) a 0 (length a) = length (filter (\<lambda>x. x < v) a)"
    using assms by (intro binsearch_count) auto
  moreover have "filter (\<lambda>x. x < v) a = a"
    using assms by (auto simp: filter_id_conv)
  ultimately show ?thesis by (simp add: searchsorted_left_def)
qed

subsection \<open>Construction and preparation\<close>

lemma SpectralModel_init_fields:
  assumes "SpectralModel_init e_lo e_hi n = Inr sm"
  shows "emin sm = e_lo \<and> emax sm = e_hi \<and> nchan sm = n
           \<and> linspace e_lo e_hi (n + 1) = Inr (ebins sm) \<and> de sm = np_diff (ebins sm)
           \<and> emid sm = map2 (\<lambda>hi lo. 0.5 * (hi + lo)) (tl (ebins sm)) (butlast (ebins sm))"
  using assms
  by (cases "linspace e_lo e_hi (n + 1)") (auto simp: SpectralModel_init_def)

lemma init_result:
  assumes "TableApecModel_init ph root_dir e_lo e_hi n vers broad = Inr m0"
  shows "\<exists>eb. linspace e_lo e_hi (n + 1) = Inr eb \<and> nchan m0 = n \<and> ebins m0 = eb
           \<and> de m0 = np_diff eb
           \<and> emid m0 = map2 (\<lambda>hi lo. 0.5 * (hi + lo)) (tl eb) (butlast eb)
           \<and> wvbins m0 = map (\<lambda>e. hc ph / e) (rev eb)
           \<and> thermal_broad m0 = broad
           \<and> cosmic_elem m0 = [1,2,3,4,5,9,11,15,17,19,21,22,23,24,25,27,29,30]
           \<and> metal_elem m0 = [6,7,8,10,12,13,14,16,18,20,26,28]
           \<and> line_handle m0 = None \<and> coco_handle m0 = None \<and> Tvals m0 = None
           \<and> dTvals m0 = None \<and> minlam m0 = None \<and> maxlam m0 = None
           \<and> scale_factor m0 = None"
proof (cases "linspace e_lo e_hi (n + 1)")
  case (Inl err)
  with assms show ?thesis
    by (simp add: TableApecModel_init_def SpectralModel_init_def)
next
  case (Inr eb)
  with assms have "m0 = \<lparr>emin = e_lo, emax = e_hi, nchan = n, ebins = eb,
                de = np_diff eb, emid = map2 (\<lambda>hi lo. 0.5 * (hi + lo)) (tl eb) (butlast eb),
                apec_root = root_dir,
                apec_prefix = ''apec_v'' @ vers,
                cocofile = path_join root_dir ((''apec_v'' @ vers) @ ''_coco.fits''),
                linefile = path_join root_dir ((''apec_v'' @ vers) @ ''_line.fits''),
                wvbins = map (\<lambda>e. hc ph / e) (rev eb),
                cosmic_elem = [1,2,3,4,5,9,11,15,17,19,21,22,23,24,25,27,29,30],
                metal_elem = [6,7,8,10,12,13,14,16,18,20,26,28],
                thermal_broad = broad,
                A = [0.0,1.00794,4.00262,6.941,9.012182,10.811,
                     12.0107,14.0067,15.9994,18.9984,20.1797,
                     22.9898,24.3050,26.9815,28.0855,30.9738,
                     32.0650,35.4530,39.9480,39.0983,40.0780,
                     44.9559,47.8670,50.9415,51.9961,54.9380,
                     55.8450,58.9332,58.6934,63.5460,65.3800],
                line_handle = None, coco_handle = None, Tvals = None, dTvals = None,
                minlam = None, maxlam = None, scale_factor = None\<rparr>"
    by (simp add: TableApecModel_init_def SpectralModel_init_def Let_def)
  then show ?thesis using Inr by simp
qed

lemma init_paths:
  assumes "TableApecModel_init ph root_dir e_lo e_hi n vers broad = Inr m0"
  shows "linefile m0 = path_join root_dir (''apec_v'' @ vers @ ''_line.fits'')
       \<and> cocofile m0 = path_join root_dir (''apec_v'' @ vers @ ''_coco.fits'')"
  using assms
  by (cases "SpectralModel_init e_lo e_hi n") (auto simp: TableApecModel_init_def Let_def)

lemma init_succeeds:
  assumes "0 \<le> n"
  shows "\<exists>m0. TableApecModel_init ph root_dir e_lo e_hi n vers broad = Inr m0"
proof -
  have "\<exists>eb. linspace e_lo e_hi (n + 1) = Inr eb"
    using assms by (simp add: linspace_def Let_def)
  then show ?thesis
    by (auto simp: TableApecModel_init_def SpectralModel_init_def Let_def)
qed

lemma prepare_result:
  assumes "TableApecModel_prepare_spectrum fs m0 zobs = (m, msgs, None)"
  shows "\<exists>lh ch T lo hi.
           pyfits_open fs (linefile m0) = Inr lh \<and> pyfits_open fs (cocofile m0) = Inr ch
         \<and> bind_err (getitem lh 1) field_kT = Inr T
         \<and> np_min (wvbins m0) = Inr lo \<and> np_max (wvbins m0) = Inr hi
         \<and> 1 + zobs \<noteq> 0 \<and> msgs = []
         \<and> m = m0\<lparr>line_handle := Some lh, coco_handle := Some ch, Tvals := Some T,
                   dTvals := Some (np_diff T), minlam := Some lo, maxlam := Some hi,
                   scale_factor := Some (1 / (1 + zobs))\<rparr>"
proof -
  note d = TableApecModel_prepare_spectrum_def Let_def
  obtain lh where lh: "pyfits_open fs (linefile m0) = Inr lh"
    using assms by (cases "pyfits_open fs (linefile m0)") (simp_all add: d)
  obtain ch where ch: "pyfits_open fs (cocofile m0) = Inr ch"
    using assms lh by (cases "pyfits_open fs (cocofile m0)") (simp_all add: d)
  obtain T where T: "bind_err (getitem lh 1) field_kT = Inr T"
    using assms lh ch by (cases "bind_err (getitem lh 1) field_kT") (simp_all add: d)
  obtain lo where lo: "np_min (wvbins m0) = Inr lo"
    using assms lh ch T by (cases "np_min (wvbins m0)") (simp_all add: d)
  obtain hi where hi: "np_max (wvbins m0) = Inr hi"
    using assms lh ch T lo by (cases "np_max (wvbins m0)") (simp_all add: d)
  have z: "1 + zobs \<noteq> 0"
    using assms lh ch T lo hi by (cases "1 + zobs = 0") (simp_all add: d)
  have "msgs = [] \<and> m = m0\<lparr>line_handle := Some lh, coco_handle := Some ch, Tvals := Some T,
                   dTvals := Some (np_diff T), minlam := Some lo, maxlam := Some hi,
                   scale_factor := Some (1 / (1 + zobs))\<rparr>"
    using assms lh ch T lo hi z by (simp add: d)
  with lh ch T lo hi z show ?thesis by blast
qed

lemma prepared_channels:
  assumes "TableApecModel_init ph root_dir e_lo e_hi n vers broad = Inr m0"
    and "TableApecModel_prepare_spectrum fs m0 zobs = (m, msgs, None)"
  shows "nchan m = n \<and> 0 \<le> n"
proof -
  obtain eb where eb: "linspace e_lo e_hi (n + 1) = Inr eb" "nchan m0 = n"
      "wvbins m0 = map (\<lambda>e. hc ph / e) (rev eb)"
    using init_result[OF assms(1)] by blast
  obtain lo where "np_min (wvbins m0) = Inr lo" and m: "nchan m = nchan m0"
    using prepare_result[OF assms(2)] by auto
  then have "eb \<noteq> []" using eb(3) by (auto simp: np_min_def split: if_splits)
  then have "0 \<le> n" using eb(1) by (auto simp: linspace_def split: if_splits)
  then show ?thesis using m eb(2) by simp
qed

subsection \<open>The sample tables evaluated\<close>

lemma sample_unprepared_eq:
  "sample_unprepared =
     \<lparr>emin = 1, emax = 2, nchan = 2, ebins = [1, 3 / 2, 2],
      de = [1 / 2, 1 / 2], emid = [5 / 4, 7 / 4], apec_root = ''/atomdb'',
      apec_prefix = ''apec_v2.0.2'',
      cocofile = ''/atomdb/apec_v2.0.2_coco.fits'',
      linefile = ''/atomdb/apec_v2.0.2_line.fits'',
      wvbins = [12.3984193 / 2, 12.3984193 / (3 / 2), 12.3984193],
      cosmic_elem = [1,2,3,4,5,9,11,15,17,19,21,22,23,24,25,27,29,30],
      metal_elem = [6,7,8,10,12,13,14,16,18,20,26,28],
      thermal_broad = False,
      A = [0.0,1.00794,4.00262,6.941,9.012182,10.811,
           12.0107,14.0067,15.9994,18.9984,20.1797,
           22.9898,24.3050,26.9815,28.0855,30.9738,
           32.0650,35.4530,39.9480,39.0983,40.0780,
           44.9559,47.8670,50.9415,51.9961,54.9380,
           55.8450,58.9332,58.6934,63.5460,65.3800],
      line_handle = None, coco_handle = None, Tvals = None, dTvals = None,
      minlam = None, maxlam = None, scale_factor = None\<rparr>"
  by (simp add: sample_unprepared_def TableApecModel_init_def SpectralModel_init_def
      linspace_def np_diff_def path_join_def sample_physics_def upt_rec Let_def)

lemma sample_init:
  "TableApecModel_init sample_physics ''/atomdb'' 1 2 2 ''2.0.2'' False = Inr sample_unprepared"
  by (simp add: sample_unprepared_def TableApecModel_init_def SpectralModel_init_def
      linspace_def Let_def)

lemma sample_prepared_eq:
  assumes "1 + zobs \<noteq> 0"
  shows "TableApecModel_prepare_spectrum sample_fs sample_unprepared zobs =
     (sample_unprepared\<lparr>line_handle := Some sample_line_hdus,
        coco_handle := Some sample_coco_hdus, Tvals := Some [1, 2, 3],
        dTvals := Some [1, 1], minlam := Some (12.3984193 / 2), maxlam := Some 12.3984193,
        scale_factor := Some (1 / (1 + zobs))\<rparr>, [], None)"
  using assms
  by (simp add: sample_unprepared_eq TableApecModel_prepare_spectrum_def pyfits_open_def
      sample_fs_def getitem_def sample_line_hdus_def np_diff_def np_min_def np_max_def Let_def)

lemma sample_model_eq:
  assumes "1 + zobs \<noteq> 0"
  shows "sample_model zobs =
     sample_unprepared\<lparr>line_handle := Some sample_line_hdus,
        coco_handle := Some sample_coco_hdus, Tvals := Some [1, 2, 3],
        dTvals := Some [1, 1], minlam := Some (12.3984193 / 2), maxlam := Some 12.3984193,
        scale_factor := Some (1 / (1 + zobs))\<rparr>"
  by (simp add: sample_model_def sample_prepared_eq[OF assms])

lemma sample_prepare:
  assumes "1 + zobs \<noteq> 0"
  shows "TableApecModel_prepare_spectrum sample_fs sample_unprepared zobs =
           (sample_model zobs, [], None)"
  by (simp add: sample_model_eq[OF assms] sample_prepared_eq[OF assms])

lemma sample_channel_index:
  "channel_index [1, 3 / 2, 2] E = int (length (filter (\<lambda>x. x \<le> E) [1, 3 / 2, 2])) - 1"
  by (simp add: channel_index_def searchsorted_right_sorted)

lemma np_zeros_2: "np_zeros 2 = Inr [0, 0]"
  by (simp add: np_zeros_def numeral_2_eq_2)

lemma sample_line_spectrum:
  assumes "b = 2 \<or> b = 3 \<or> b = 4"
  shows "line_spectrum sample_physics (sample_model 0) e b =
     Inr (if e = 2 then (if b = 2 then [4, 0] else if b = 3 then [8, 0] else [0, 2])
          else if e = 8 then (if b = 2 then [0, 6] else if b = 3 then [0, 2] else [0, 0])
          else [0, 0])"
proof -
  consider "e = 2" | "e = 8" | "e \<noteq> 2" "e \<noteq> 8" by blast
  then show ?thesis
  proof cases
    case 1
    with assms show ?thesis
      by (auto simp: sample_model_eq sample_unprepared_eq line_spectrum_def np_zeros_2 attr_def
          getitem_def sample_line_hdus_def select_lines_def line_energy_def sample_physics_def
          sample_channel_index add_at_def wrap_index_def Let_def)
  next
    case 2
    with assms show ?thesis
      by (auto simp: sample_model_eq sample_unprepared_eq line_spectrum_def np_zeros_2 attr_def
          getitem_def sample_line_hdus_def select_lines_def line_energy_def sample_physics_def
          sample_channel_index add_at_def wrap_index_def Let_def)
  next
    case 3
    then have "2 \<noteq> e" "8 \<noteq> e" by auto
    with 3 assms show ?thesis
      by (auto simp: sample_model_eq sample_unprepared_eq line_spectrum_def np_zeros_2 attr_def
          getitem_def sample_line_hdus_def select_lines_def line_energy_def sample_physics_def
          sample_channel_index add_at_def wrap_index_def Let_def)
  qed
qed

lemma sample_make_spectrum:
  assumes "b = 2 \<or> b = 3 \<or> b = 4"
  shows "TableApecModel_make_spectrum sample_physics (sample_model 0) e b =
     Inr (if e = 2 then (if b = 2 then [21 / 4, 7 / 4] else if b = 3 then [8, 0] else [0, 2])
          else if e = 8 then (if b = 2 then [0, 6] else if b = 3 then [0, 2] else [0, 0])
          else [0, 0])"
proof -
  note ev = sample_model_eq sample_unprepared_eq attr_def getitem_def sample_coco_hdus_def
      np_interp_def interp_at_def slice_to_def searchsorted_right_sorted Let_def
  consider "e = 2" | "e \<noteq> 2" by blast
  then show ?thesis
  proof cases
    case 1
    with assms show ?thesis
      unfolding TableApecModel_make_spectrum_def add_continuum_def continuum_terms_def sample_line_spectrum[OF assms]
      by (auto simp: ev)
  next
    case 2
    then have "2 \<noteq> e" by auto
    with 2 assms show ?thesis
      unfolding TableApecModel_make_spectrum_def add_continuum_def continuum_terms_def sample_line_spectrum[OF assms]
      by (auto simp: ev)
  qed
qed

lemma sample_temperature_index:
  "temperature_index [1, 2, 3] kT = int (length (filter (\<lambda>x. x < kT) [1, 2, 3])) - 1"
  by (simp add: temperature_index_def searchsorted_left_sorted)

lemma sample_get_spectrum_3:
  "TableApecModel_get_spectrum sample_physics (sample_model 0) 3 = Inr ([0, 2], [0, 0])"
proof -
  have f: "nchan (sample_model 0) = 2" "Tvals (sample_model 0) = Some [1, 2, 3]"
    "dTvals (sample_model 0) = Some [1, 1]"
    "cosmic_elem (sample_model 0) = [1,2,3,4,5,9,11,15,17,19,21,22,23,24,25,27,29,30]"
    "metal_elem (sample_model 0) = [6,7,8,10,12,13,14,16,18,20,26,28]"
    by (simp_all add: sample_model_eq sample_unprepared_eq)
  show ?thesis
    unfolding TableApecModel_get_spectrum_def f
    by (simp add: np_zeros_2 attr_def sample_temperature_index interpolation_fraction_def
        getitem_def sample_make_spectrum blend_def)
qed

subsection \<open>The loops over the element lists\<close>

lemma accumulate_element_sum:
  "accumulate ph m t es l r = Inr (L, R) \<longleftrightarrow>
     element_sum ph m (t + 2) es l = Inr L \<and> element_sum ph m (t + 3) es r = Inr R"
proof (induction es arbitrary: l r)
  case Nil
  show ?case by auto
next
  case (Cons e es)
  show ?case
  proof (cases "TableApecModel_make_spectrum ph m e (t + 2)")
    case (Inl err)
    then show ?thesis by simp
  next
    case left: (Inr a)
    show ?thesis
    proof (cases "TableApecModel_make_spectrum ph m e (t + 3)")
      case (Inl err)
      then show ?thesis using left by simp
    next
      case (Inr b)
      then show ?thesis using left Cons.IH by simp
    qed
  qed
qed

lemma accumulate_Inr_iff:
  "accumulate ph m t es l r = Inr p \<longleftrightarrow>
     element_sum ph m (t + 2) es l = Inr (fst p) \<and> element_sum ph m (t + 3) es r = Inr (snd p)"
  using accumulate_element_sum[of ph m t es l r "fst p" "snd p"] by simp

subsection \<open>The temperature bracket\<close>

lemma sorted_bracket_count:
  assumes "sorted T" and "i + 1 < length T" and "T ! i < kT" and "kT \<le> T ! (i + 1)"
  shows "length (filter (\<lambda>x. x < kT) T) = i + 1"
proof (rule prefix_filter_length)
  show "i + 1 \<le> length T" using assms(2) by simp
  show "\<forall>j<i + 1. T ! j < kT"
  proof (intro allI impI)
    fix j assume "j < i + 1"
    then have "T ! j \<le> T ! i" using assms(1,2) by (intro sorted_nth_mono) auto
    then show "T ! j < kT" using assms(3) by simp
  qed
  show "\<forall>j. i + 1 \<le> j \<and> j < length T \<longrightarrow> \<not> T ! j < kT"
  proof (intro allI impI)
    fix j assume "i + 1 \<le> j \<and> j < length T"
    then have "T ! (i + 1) \<le> T ! j" using assms(1) by (intro sorted_nth_mono) auto
    then show "\<not> T ! j < kT" using assms(4) by simp
  qed
qed

lemma temperature_index_bracket:
  assumes "sorted T" and "i + 1 < length T" and "T ! i < kT" and "kT \<le> T ! (i + 1)"
  shows "temperature_index T kT = int i"
  using sorted_bracket_count[OF assms] assms(1)
  by (simp add: temperature_index_def searchsorted_left_sorted)

lemma interpolation_fraction_diff:
  assumes "i + 1 < length T"
  shows "interpolation_fraction T (np_diff T) i kT
           = Inr ((kT - T ! i) / (T ! (i + 1) - T ! i))"
  using assms
  by (simp add: interpolation_fraction_def getitem_def np_diff_length np_diff_nth)

text \<open>Outside the brackets of the grid the method returns the zero arrays.\<close>

lemma get_spectrum_outside:
  assumes "nchan m = n" and "0 \<le> n" and "Tvals m = Some T"
    and "(\<forall>t\<in>set T. kT \<le> t) \<or> (\<forall>t\<in>set T. t < kT)"
  shows "TableApecModel_get_spectrum ph m kT = Inr (replicate (nat n) 0, replicate (nat n) 0)"
proof -
  have "temperature_index T kT < 0 \<or> temperature_index T kT \<ge> int (length T) - 1"
    using assms(4) searchsorted_left_none_below[of T kT] searchsorted_left_all_below[of T kT]
    by (auto simp: temperature_index_def)
  then show ?thesis using assms(1-3)
    by (auto simp: TableApecModel_get_spectrum_def np_zeros_def attr_def Let_def)
qed

text \<open>Inside a bracket of the grid the method is the blend of the four sums.\<close>

lemma get_spectrum_in_bracket:
  assumes "nchan m = n" and "0 \<le> n" and "Tvals m = Some T" and "dTvals m = Some (np_diff T)"
    and "sorted T" and "i + 1 < length T" and "T ! i < kT" and "kT \<le> T ! (i + 1)"
  shows "TableApecModel_get_spectrum ph m kT =
     bind_err (accumulate ph m i (cosmic_elem m) (replicate (nat n) 0) (replicate (nat n) 0))
       (\<lambda>(cspec_l, cspec_r).
     bind_err (accumulate ph m i (metal_elem m) (replicate (nat n) 0) (replicate (nat n) 0))
       (\<lambda>(mspec_l, mspec_r).
         Inr (blend ((kT - T ! i) / (T ! (i + 1) - T ! i)) cspec_l cspec_r,
              blend ((kT - T ! i) / (T ! (i + 1) - T ! i)) mspec_l mspec_r)))"
proof -
  have ti: "temperature_index T kT = int i"
    by (rule temperature_index_bracket) (use assms in auto)
  have fr: "interpolation_fraction T (np_diff T) i kT
           = Inr ((kT - T ! i) / (T ! (i + 1) - T ! i))"
    by (rule interpolation_fraction_diff) (use assms in auto)
  show ?thesis
    unfolding TableApecModel_get_spectrum_def
    using assms(1-4,6) ti fr by (simp add: np_zeros_def attr_def)
qed

subsection \<open>Array lengths\<close>

lemma linspace_length:
  assumes "linspace a b num = Inr eb"
  shows "length eb = nat num"
  using assms by (auto simp: linspace_def Let_def split: if_splits)

lemma prepared_lengths:
  assumes "TableApecModel_init ph root_dir e_lo e_hi n vers broad = Inr m0"
    and "TableApecModel_prepare_spectrum fs m0 zobs = (m, msgs, None)"
  shows "nchan m = n \<and> 0 \<le> n \<and> length (ebins m) = nat n + 1
       \<and> length (de m) = nat n \<and> length (emid m) = nat n \<and> thermal_broad m = broad"
proof -
  obtain eb where eb: "linspace e_lo e_hi (n + 1) = Inr eb" "ebins m0 = eb"
      "de m0 = np_diff eb"
      "emid m0 = map2 (\<lambda>hi lo. 0.5 * (hi + lo)) (tl eb) (butlast eb)"
      "thermal_broad m0 = broad"
    using init_result[OF assms(1)] by blast
  have n: "nchan m = n" "0 \<le> n" using prepared_channels[OF assms] by simp_all
  have same: "ebins m = ebins m0" "de m = de m0" "emid m = emid m0"
      "thermal_broad m = thermal_broad m0"
    using prepare_result[OF assms(2)] by auto
  have len: "length eb = nat n + 1" using linspace_length[OF eb(1)] n(2) by simp
  show ?thesis using n same eb len by (simp add: np_diff_length)
qed

lemma prepared_grid:
  assumes "TableApecModel_init ph root_dir e_lo e_hi n vers broad = Inr m0"
    and "TableApecModel_prepare_spectrum fs m0 zobs = (m, msgs, None)"
    and "Tvals m = Some T"
  shows "dTvals m = Some (np_diff T)"
  using prepare_result[OF assms(2)] assms(3) by auto

lemma add_at_length:
  "add_at vec i a = Inr v \<Longrightarrow> length v = length vec"
  by (auto simp: add_at_def Let_def split: if_splits)

lemma deposit_length:
  "deposit vec ps = Inr v \<Longrightarrow> length v = length vec"
proof (induction ps arbitrary: vec)
  case Nil
  then show ?case by simp
next
  case (Cons p ps)
  obtain i a where p: "p = (i, a)" by (cases p)
  from Cons.prems obtain v' where v': "add_at vec i a = Inr v'" "deposit v' ps = Inr v"
    by (auto simp: p bind_err_eq_Inr)
  show ?case using Cons.IH[OF v'(2)] add_at_length[OF v'(1)] by simp
qed









subsection \<open>Sums on the sample tables\<close>

lemma sample_fields:
  "nchan (sample_model 0) = 2" "Tvals (sample_model 0) = Some [1, 2, 3]"
  "dTvals (sample_model 0) = Some [1, 1]"
  "cosmic_elem (sample_model 0) = [1,2,3,4,5,9,11,15,17,19,21,22,23,24,25,27,29,30]"
  "metal_elem (sample_model 0) = [6,7,8,10,12,13,14,16,18,20,26,28]"
  "thermal_broad (sample_model 0) = False"
  by (simp_all add: sample_model_eq sample_unprepared_eq)

lemma replicate_2: "replicate 2 x = [x, x]"
  by (simp add: numeral_2_eq_2)

lemma sample_cosmic_sum:
  assumes "b = 2 \<or> b = 3 \<or> b = 4"
  shows "element_sum sample_physics (sample_model 0) b (cosmic_elem (sample_model 0)) [0, 0]
         = Inr (if b = 2 then [21 / 4, 7 / 4] else if b = 3 then [8, 0] else [0, 2])"
  unfolding sample_fields using assms by (auto simp: sample_make_spectrum[OF assms])

lemma sample_metal_sum:
  assumes "b = 2 \<or> b = 3 \<or> b = 4"
  shows "element_sum sample_physics (sample_model 0) b (metal_elem (sample_model 0)) [0, 0]
         = Inr (if b = 2 then [0, 6] else if b = 3 then [0, 2] else [0, 0])"
  unfolding sample_fields using assms by (auto simp: sample_make_spectrum[OF assms])

subsection \<open>The bin edges are sorted\<close>

lemma linspace_sorted:
  assumes "a \<le> b" and "linspace a b num = Inr eb"
  shows "sorted eb"
proof (cases "num \<le> 1")
  case True
  with assms(2) show ?thesis by (auto simp: linspace_def split: if_splits)
next
  case False
  define k where "k = nat num - 1"
  define step where "step = (b - a) / real k"
  have k: "0 < k" using False by (simp add: k_def)
  have eb: "eb = map (\<lambda>i. real i * step + a) [0..<k] @ [b]"
    using assms(2) False by (auto simp: linspace_def Let_def k_def step_def split: if_splits)
  have step: "0 \<le> step" using assms(1) k by (simp add: step_def)
  have full: "real k * step = b - a" using k by (simp add: step_def)
  have mono: "real i * step + a \<le> real j * step + a" if "i \<le> j" for i j :: nat
    using that step by (simp add: mult_right_mono)
  have top: "real i * step + a \<le> b" if "i < k" for i
  proof -
    have "real i * step \<le> real k * step" using that step by (simp add: mult_right_mono)
    then show ?thesis using full by simp
  qed
  have "sorted (map (\<lambda>i. real i * step + a) [0..<k])"
    using mono by (auto simp: sorted_iff_nth_mono)
  then show ?thesis using top by (auto simp: eb sorted_append)
qed

lemma linspace_first:
  assumes "linspace a b num = Inr eb" and "0 < num"
  shows "eb ! 0 = a"
proof (cases "num = 1")
  case True
  with assms show ?thesis by (auto simp: linspace_def)
next
  case False
  then have "0 < nat num - 1" using assms(2) by simp
  then have "[0..<nat num - 1] = 0 # [1..<nat num - 1]" by (simp add: upt_rec)
  then show ?thesis using assms False by (auto simp: linspace_def Let_def split: if_splits)
qed

lemma linspace_last:
  assumes "linspace a b num = Inr eb" and "1 < num"
  shows "eb ! (nat num - 1) = b"
  using assms by (auto simp: linspace_def Let_def nth_append split: if_splits)

lemma prepared_edges:
  assumes "TableApecModel_init ph root_dir e_lo e_hi n vers broad = Inr m0"
    and "TableApecModel_prepare_spectrum fs m0 zobs = (m, msgs, None)"
    and "e_lo \<le> e_hi"
  shows "sorted (ebins m) \<and> ebins m ! 0 = e_lo \<and> (0 < n \<longrightarrow> ebins m ! nat n = e_hi)"
proof -
  obtain eb where eb: "linspace e_lo e_hi (n + 1) = Inr eb" "ebins m0 = eb"
    using init_result[OF assms(1)] by blast
  have n: "0 \<le> n" using prepared_channels[OF assms(1,2)] by simp
  have same: "ebins m = eb" using prepare_result[OF assms(2)] eb(2) by auto
  have "eb ! (nat (n + 1) - 1) = e_hi" if "0 < n"
    using linspace_last[OF eb(1)] that by simp
  moreover have "nat (n + 1) - 1 = nat n" using n by simp
  ultimately show ?thesis
    using linspace_sorted[OF assms(3) eb(1)] linspace_first[OF eb(1)] n same by simp
qed

subsection \<open>The channel of an energy\<close>

lemma searchsorted_right_props:
  assumes "sorted a"
  shows "searchsorted_right a v \<le> length a
       \<and> (\<forall>i<searchsorted_right a v. a ! i \<le> v)
       \<and> (\<forall>i. searchsorted_right a v \<le> i \<and> i < length a \<longrightarrow> v < a ! i)"
proof -
  have mono: "\<forall>i j. i \<le> j \<and> j < length a \<and> a ! j \<le> v \<longrightarrow> a ! i \<le> v"
    using assms by (meson sorted_nth_mono order_trans)
  have "0 \<le> binsearch (\<lambda>x. x \<le> v) a 0 (length a)
       \<and> binsearch (\<lambda>x. x \<le> v) a 0 (length a) \<le> length a
       \<and> (\<forall>i<binsearch (\<lambda>x. x \<le> v) a 0 (length a). a ! i \<le> v)
       \<and> (\<forall>i. binsearch (\<lambda>x. x \<le> v) a 0 (length a) \<le> i \<and> i < length a \<longrightarrow> \<not> a ! i \<le> v)"
    by (rule binsearch_partition[OF _ _ _ _ mono]) auto
  then show ?thesis by (simp add: searchsorted_right_def not_le)
qed

lemma channel_index_props:
  assumes "sorted eb"
  shows "- 1 \<le> channel_index eb E \<and> channel_index eb E < int (length eb)
       \<and> (\<forall>k. int k \<le> channel_index eb E \<longrightarrow> eb ! k \<le> E)
       \<and> (\<forall>k. channel_index eb E < int k \<and> k < length eb \<longrightarrow> E < eb ! k)"
  using searchsorted_right_props[OF assms, of E] by (auto simp: channel_index_def)

lemma channel_index_nonneg_iff:
  assumes "sorted eb" and "eb \<noteq> []"
  shows "0 \<le> channel_index eb E \<longleftrightarrow> eb ! 0 \<le> E"
proof
  assume "0 \<le> channel_index eb E"
  then show "eb ! 0 \<le> E" using channel_index_props[OF assms(1), of E] by auto
next
  assume "eb ! 0 \<le> E"
  then have "\<not> E < eb ! 0" by simp
  then have "\<not> channel_index eb E < int 0"
    using channel_index_props[OF assms(1), of E] assms(2) by (metis length_greater_0_conv)
  then show "0 \<le> channel_index eb E" by simp
qed

lemma channel_index_below_iff:
  assumes "sorted eb" and "k < length eb"
  shows "channel_index eb E < int k \<longleftrightarrow> E < eb ! k"
proof
  assume "channel_index eb E < int k"
  then show "E < eb ! k" using channel_index_props[OF assms(1), of E] assms(2) by blast
next
  assume "E < eb ! k"
  then have "\<not> eb ! k \<le> E" by simp
  then have "\<not> int k \<le> channel_index eb E"
    using channel_index_props[OF assms(1), of E] by blast
  then show "channel_index eb E < int k" by simp
qed

subsection \<open>Depositing the lines\<close>

lemma add_at_Inr_iff:
  "add_at vec i a = Inr v \<longleftrightarrow>
     0 \<le> wrap_index (int (length vec)) i \<and> wrap_index (int (length vec)) i < int (length vec)
     \<and> v = vec[nat (wrap_index (int (length vec)) i)
               := vec ! nat (wrap_index (int (length vec)) i) + a]"
  by (auto simp: add_at_def Let_def)

lemma deposit_nth:
  assumes "deposit vec ps = Inr v" and "k < length vec"
  shows "v ! k = vec ! k
           + sum_list (map snd (filter (\<lambda>p. wrap_index (int (length vec)) (fst p) = int k) ps))"
  using assms
proof (induction ps arbitrary: vec)
  case Nil
  then show ?case by simp
next
  case (Cons p ps)
  obtain i a where p: "p = (i, a)" by (cases p)
  define j where "j = wrap_index (int (length vec)) i"
  from Cons.prems(1) obtain v' where v': "add_at vec i a = Inr v'" "deposit v' ps = Inr v"
    by (auto simp: p bind_err_eq_Inr)
  have j: "0 \<le> j" "j < int (length vec)" "v' = vec[nat j := vec ! nat j + a]"
    using v'(1) by (simp_all add: add_at_Inr_iff j_def)
  have len: "length v' = length vec" using j(3) by simp
  have step: "v' ! k = vec ! k + (if j = int k then a else 0)"
    using j Cons.prems(2) by (auto simp: nth_list_update)
  have "v ! k = v' ! k
           + sum_list (map snd (filter (\<lambda>p. wrap_index (int (length vec)) (fst p) = int k) ps))"
    using Cons.IH[OF v'(2)] Cons.prems(2) len by simp
  then show ?case using step by (simp add: p j_def)
qed

lemma deposit_defined_iff:
  "(\<exists>v. deposit vec ps = Inr v) \<longleftrightarrow>
     (\<forall>p\<in>set ps. 0 \<le> wrap_index (int (length vec)) (fst p)
                  \<and> wrap_index (int (length vec)) (fst p) < int (length vec))"
proof (induction ps arbitrary: vec)
  case Nil
  show ?case by simp
next
  case (Cons p ps)
  obtain i a where p: "p = (i, a)" by (cases p)
  show ?case
  proof (cases "add_at vec i a")
    case (Inl err)
    then have "\<not> (0 \<le> wrap_index (int (length vec)) i
                \<and> wrap_index (int (length vec)) i < int (length vec))"
      by (auto simp: add_at_def Let_def split: if_splits)
    then show ?thesis using Inl by (auto simp: p)
  next
    case (Inr v')
    then have ok: "0 \<le> wrap_index (int (length vec)) i"
        "wrap_index (int (length vec)) i < int (length vec)" and len: "length v' = length vec"
      by (auto simp: add_at_Inr_iff)
    show ?thesis using Cons.IH[of v'] Inr ok len by (simp add: p)
  qed
qed

text \<open>Without broadening the line part of the method is the deposit loop.\<close>

lemma line_spectrum_deposit:
  assumes "nchan m = n" and "0 \<le> n" and "thermal_broad m = False"
    and "line_handle m = Some lh" and "b < length lh" and "lh ! b = LineHDU rows"
    and "minlam m = Some lo" and "maxlam m = Some hi" and "scale_factor m = Some sf"
  shows "line_spectrum ph m elem b =
     bind_err (deposit (replicate (nat n) 0)
                 (map (\<lambda>r. (channel_index (ebins m) (line_energy ph sf r), epsilon r))
                    (select_lines rows elem lo hi)))
       (\<lambda>vec. Inr (map2 (+) (replicate (nat n) 0) vec))"
proof -
  have z: "zip (map (channel_index (ebins m) \<circ> line_energy ph sf) xs) (map epsilon xs)
             = map (\<lambda>r. (channel_index (ebins m) (line_energy ph sf r), epsilon r)) xs" for xs
    by (induction xs) simp_all
  show ?thesis
    using assms by (simp add: line_spectrum_def np_zeros_def attr_def getitem_def Let_def z)
qed

lemma add_zeros:
  assumes "length v = k"
  shows "map2 (+) (replicate k (0::real)) v = v"
  using assms by (intro nth_equalityI) simp_all

subsection \<open>The wavelength window\<close>

lemma fold_min_in_set: "fold min xs (x::real) \<in> insert x (set xs)"
proof (induction xs arbitrary: x)
  case Nil
  show ?case by simp
next
  case (Cons y ys)
  show ?case
  proof (cases "y \<le> x")
    case True
    then have "min y x = y" by simp
    then show ?thesis using Cons.IH[of y] by auto
  next
    case False
    then have "min y x = x" by simp
    then show ?thesis using Cons.IH[of x] by auto
  qed
qed

lemma np_min_in_set:
  assumes "np_min a = Inr x"
  shows "x \<in> set a"
proof -
  have ne: "a \<noteq> []" and x: "x = fold min (tl a) (hd a)"
    using assms by (auto simp: np_min_def split: if_splits)
  have "x \<in> insert (hd a) (set (tl a))" unfolding x by (rule fold_min_in_set)
  then show ?thesis using ne by (cases a) auto
qed

lemma prepared_window_positive:
  assumes "TableApecModel_init ph root_dir e_lo e_hi n vers broad = Inr m0"
    and "TableApecModel_prepare_spectrum fs m0 zobs = (m, msgs, None)"
    and "0 < hc ph" and "0 < e_lo" and "e_lo \<le> e_hi"
    and "minlam m = Some lo"
  shows "0 < lo"
proof -
  obtain eb where eb: "linspace e_lo e_hi (n + 1) = Inr eb" "ebins m0 = eb"
      "wvbins m0 = map (\<lambda>e. hc ph / e) (rev eb)"
    using init_result[OF assms(1)] by blast
  have n: "0 \<le> n" using prepared_channels[OF assms(1,2)] by simp
  have "np_min (wvbins m0) = Inr lo"
    using prepare_result[OF assms(2)] assms(6) by auto
  then have "lo \<in> set (wvbins m0)" by (rule np_min_in_set)
  then obtain e where e: "e \<in> set eb" "lo = hc ph / e" using eb(3) by auto
  have s: "sorted eb" using linspace_sorted[OF assms(5) eb(1)] .
  have f: "eb ! 0 = e_lo" using linspace_first[OF eb(1)] n by simp
  obtain k where k: "k < length eb" "e = eb ! k" using e(1) by (auto simp: in_set_conv_nth)
  have "eb ! 0 \<le> eb ! k" using s k(1) by (intro sorted_nth_mono) auto
  then have "0 < e" using f k(2) assms(4) by simp
  then show ?thesis using e(2) assms(3) by simp
qed

lemma prepared_window_lower:
  assumes "TableApecModel_init ph root_dir e_lo e_hi n vers broad = Inr m0"
    and "TableApecModel_prepare_spectrum fs m0 zobs = (m, msgs, None)"
    and "0 < hc ph" and "0 < e_lo" and "e_lo \<le> e_hi" and "0 < n"
    and "minlam m = Some lo"
  shows "hc ph / e_hi \<le> lo"
proof -
  obtain eb where eb: "linspace e_lo e_hi (n + 1) = Inr eb" "ebins m0 = eb"
      "wvbins m0 = map (\<lambda>e. hc ph / e) (rev eb)"
    using init_result[OF assms(1)] by blast
  have "np_min (wvbins m0) = Inr lo"
    using prepare_result[OF assms(2)] assms(7) by auto
  then have "lo \<in> set (wvbins m0)" by (rule np_min_in_set)
  then obtain e where e: "e \<in> set eb" "lo = hc ph / e" using eb(3) by auto
  have s: "sorted eb" using linspace_sorted[OF assms(5) eb(1)] .
  have f: "eb ! 0 = e_lo" using linspace_first[OF eb(1)] assms(6) by simp
  have len: "length eb = nat n + 1" using linspace_length[OF eb(1)] assms(6) by simp
  have "nat (n + 1) - 1 = nat n" using assms(6) by simp
  then have l: "eb ! nat n = e_hi" using linspace_last[OF eb(1)] assms(6) by simp
  obtain k where k: "k < length eb" "e = eb ! k" using e(1) by (auto simp: in_set_conv_nth)
  have "eb ! 0 \<le> eb ! k" using s k(1) by (intro sorted_nth_mono) auto
  then have pos: "0 < e" using f k(2) assms(4) by simp
  have "eb ! k \<le> eb ! nat n" using s k(1) len by (intro sorted_nth_mono) auto
  then have "e \<le> e_hi" using l k(2) by simp
  then have "hc ph / e_hi \<le> hc ph / e"
    using pos assms(3) by (simp add: frac_le)
  then show ?thesis using e(2) by simp
qed

lemma prepared_scale:
  assumes "TableApecModel_prepare_spectrum fs m0 zobs = (m, msgs, None)"
    and "scale_factor m = Some sf"
  shows "sf = 1 / (1 + zobs)"
  using prepare_result[OF assms(1)] assms(2) by auto

text \<open>
  With a redshift that is not negative the observed energy of a selected line stays below
  the highest bin edge.
\<close>

lemma selected_below_top:
  assumes "TableApecModel_init ph root_dir e_lo e_hi n vers broad = Inr m0"
    and "TableApecModel_prepare_spectrum fs m0 zobs = (m, msgs, None)"
    and "0 < hc ph" and "0 < e_lo" and "e_lo \<le> e_hi" and "0 < n" and "0 \<le> zobs"
    and "minlam m = Some lo" and "scale_factor m = Some sf"
    and "r \<in> set (select_lines rows elem lo hi)"
  shows "line_energy ph sf r < e_hi"
proof -
  have lo: "hc ph / e_hi \<le> lo"
    using prepared_window_lower[OF assms(1-6,8)] .
  have hi: "0 < e_hi" using assms(4,5) by simp
  have lam: "lo < lambda r" using assms(10) by (simp add: select_lines_def)
  have q: "0 < hc ph / e_hi" using assms(3) hi by simp
  then have lp: "0 < lambda r" using lo lam by simp
  have "hc ph / e_hi < lambda r" using lo lam by simp
  then have "hc ph < lambda r * e_hi" using hi by (simp add: pos_divide_less_eq)
  then have rest: "hc ph / lambda r < e_hi" using lp by (simp add: pos_divide_less_eq mult.commute)
  have sf: "sf = 1 / (1 + zobs)" using prepared_scale[OF assms(2,9)] .
  have "0 < sf" "sf \<le> 1" using sf assms(7) by simp_all
  moreover have "0 < hc ph / lambda r" using assms(3) lp by simp
  ultimately have "hc ph / lambda r * sf \<le> hc ph / lambda r * 1"
    by (intro mult_left_mono) simp_all
  then have "hc ph / lambda r * sf \<le> hc ph / lambda r" by simp
  then show ?thesis using rest by (simp add: line_energy_def)
qed

subsection \<open>The line spectrum without broadening\<close>

lemma line_spectrum_unbroadened:
  assumes "nchan m = n" and "0 \<le> n" and "thermal_broad m = False"
    and "line_handle m = Some lh" and "b < length lh" and "lh ! b = LineHDU rows"
    and "minlam m = Some lo" and "maxlam m = Some hi" and "scale_factor m = Some sf"
  shows "line_spectrum ph m elem b = Inr spec \<longleftrightarrow>
       (\<forall>r\<in>set (select_lines rows elem lo hi).
           0 \<le> wrap_index n (channel_index (ebins m) (line_energy ph sf r))
         \<and> wrap_index n (channel_index (ebins m) (line_energy ph sf r)) < n)
     \<and> length spec = nat n
     \<and> (\<forall>j<nat n. spec ! j =
           sum_list (map epsilon
             (filter (\<lambda>r. wrap_index n (channel_index (ebins m) (line_energy ph sf r)) = int j)
                (select_lines rows elem lo hi))))"
    (is "?L \<longleftrightarrow> ?V \<and> ?N \<and> ?S")
proof -
  define sel where "sel = select_lines rows elem lo hi"
  define F where "F = (\<lambda>r. (channel_index (ebins m) (line_energy ph sf r), epsilon r))"
  define zero where "zero = replicate (nat n) (0::real)"
  have lz: "length zero = nat n" "int (length zero) = n" using assms(2) by (simp_all add: zero_def)
  have ls: "line_spectrum ph m elem b =
      bind_err (deposit zero (map F sel)) (\<lambda>vec. Inr (map2 (+) zero vec))"
    unfolding sel_def F_def zero_def by (rule line_spectrum_deposit[OF assms])
  have valid: "(\<exists>v. deposit zero (map F sel) = Inr v) \<longleftrightarrow> ?V"
    using assms(2) by (simp add: deposit_defined_iff F_def sel_def zero_def)
  have nth: "v ! j = sum_list (map epsilon
             (filter (\<lambda>r. wrap_index n (channel_index (ebins m) (line_energy ph sf r)) = int j) sel))"
    if "deposit zero (map F sel) = Inr v" "j < nat n" for v j
  proof -
    have "v ! j = zero ! j
           + sum_list (map snd (filter (\<lambda>p. wrap_index (int (length zero)) (fst p) = int j) (map F sel)))"
      using deposit_nth[OF that(1)] that(2) lz by simp
    also have "zero ! j = 0" using that(2) by (simp add: zero_def)
    also have "filter (\<lambda>p. wrap_index (int (length zero)) (fst p) = int j) (map F sel)
        = map F (filter (\<lambda>r. wrap_index n (channel_index (ebins m) (line_energy ph sf r)) = int j) sel)"
      using assms(2) by (simp add: filter_map comp_def F_def zero_def)
    also have "map snd (map F (filter (\<lambda>r. wrap_index n (channel_index (ebins m) (line_energy ph sf r)) = int j) sel))
        = map epsilon (filter (\<lambda>r. wrap_index n (channel_index (ebins m) (line_energy ph sf r)) = int j) sel)"
      by (simp add: F_def comp_def)
    finally show ?thesis by simp
  qed
  show ?thesis
  proof
    assume ?L
    then obtain v where v: "deposit zero (map F sel) = Inr v" "spec = map2 (+) zero v"
      unfolding ls by (auto simp: bind_err_eq_Inr)
    have lv: "length v = nat n" using deposit_length[OF v(1)] lz by simp
    have sv: "spec = v" using v(2) add_zeros[OF lv] by (simp add: zero_def)
    show "?V \<and> ?N \<and> ?S" using valid v(1) lv sv nth[OF v(1)] by (auto simp: sel_def)
  next
    assume r: "?V \<and> ?N \<and> ?S"
    then obtain v where v: "deposit zero (map F sel) = Inr v" using valid by blast
    have lv: "length v = nat n" using deposit_length[OF v] lz by simp
    have "spec = v"
    proof (rule nth_equalityI)
      show "length spec = length v" using r lv by simp
      fix j assume "j < length spec"
      then have j: "j < nat n" using r by simp
      show "spec ! j = v ! j" using r j nth[OF v j] by (simp add: sel_def)
    qed
    then show ?L unfolding ls using v add_zeros[OF lv] by (simp add: zero_def)
  qed
qed

lemma line_spectrum_defined_iff:
  assumes "nchan m = n" and "0 \<le> n" and "thermal_broad m = False"
    and "line_handle m = Some lh" and "b < length lh" and "lh ! b = LineHDU rows"
    and "minlam m = Some lo" and "maxlam m = Some hi" and "scale_factor m = Some sf"
  shows "(\<exists>spec. line_spectrum ph m elem b = Inr spec) \<longleftrightarrow>
       (\<forall>r\<in>set (select_lines rows elem lo hi).
           0 \<le> wrap_index n (channel_index (ebins m) (line_energy ph sf r))
         \<and> wrap_index n (channel_index (ebins m) (line_energy ph sf r)) < n)"
proof -
  have "(\<exists>spec. line_spectrum ph m elem b = Inr spec) \<longleftrightarrow>
        (\<exists>v. deposit (replicate (nat n) 0)
                 (map (\<lambda>r. (channel_index (ebins m) (line_energy ph sf r), epsilon r))
                    (select_lines rows elem lo hi)) = Inr v)"
    unfolding line_spectrum_deposit[OF assms] by (auto simp: bind_err_eq_Inr)
  then show ?thesis using assms(2) by (simp add: deposit_defined_iff)
qed

section \<open>The claims of the specification\<close>

subsection \<open>Temperatures outside the table\<close>

text \<open>
  Claim C1, as amended. For a prepared emission model and a temperature \<open>kT\<close> that is
  below every tabulated temperature, or strictly above every tabulated temperature,
  \<^verbatim>\<open>get_spectrum(kT)\<close> raises nothing and returns two all-zero arrays of length \<open>nchan\<close>.
\<close>

theorem zero_spectrum_outside_table:
  assumes "TableApecModel_init ph root_dir e_lo e_hi n vers broad = Inr m0"
    and "TableApecModel_prepare_spectrum fs m0 zobs = (m, msgs, None)"
    and "Tvals m = Some T"
    and "(\<forall>t\<in>set T. kT < t) \<or> (\<forall>t\<in>set T. t < kT)"
  shows "0 \<le> n \<and>
         TableApecModel_get_spectrum ph m kT = Inr (replicate (nat n) 0, replicate (nat n) 0)"
proof -
  have n: "nchan m = n" "0 \<le> n" using prepared_channels[OF assms(1,2)] by simp_all
  have "(\<forall>t\<in>set T. kT \<le> t) \<or> (\<forall>t\<in>set T. t < kT)"
    using assms(4) by (auto intro: less_imp_le)
  then show ?thesis using n get_spectrum_outside[OF n assms(3)] by simp
qed

theorem zero_spectrum_outside_table_witness:
  "TableApecModel_init sample_physics ''/atomdb'' 1 2 2 ''2.0.2'' False = Inr sample_unprepared
   \<and> TableApecModel_prepare_spectrum sample_fs sample_unprepared 0 = (sample_model 0, [], None)
   \<and> Tvals (sample_model 0) = Some [1, 2, 3]
   \<and> TableApecModel_get_spectrum sample_physics (sample_model 0) (1 / 2) = Inr ([0, 0], [0, 0])
   \<and> TableApecModel_get_spectrum sample_physics (sample_model 0) (7 / 2) = Inr ([0, 0], [0, 0])"
proof -
  have p: "TableApecModel_prepare_spectrum sample_fs sample_unprepared 0 = (sample_model 0, [], None)"
    by (simp add: sample_prepare)
  have T: "Tvals (sample_model 0) = Some [1, 2, 3]"
    by (simp add: sample_model_eq)
  have "TableApecModel_get_spectrum sample_physics (sample_model 0) (1 / 2)
          = Inr (replicate (nat 2) 0, replicate (nat 2) 0)"
    using zero_spectrum_outside_table[OF sample_init p T, of "1 / 2"] by simp
  moreover have "TableApecModel_get_spectrum sample_physics (sample_model 0) (7 / 2)
          = Inr (replicate (nat 2) 0, replicate (nat 2) 0)"
    using zero_spectrum_outside_table[OF sample_init p T, of "7 / 2"] by simp
  ultimately show ?thesis using p T sample_init by (simp add: numeral_2_eq_2)
qed

text \<open>
  The claim as written also covers \<open>kT\<close> equal to the largest tabulated temperature. On
  the sample tables, whose grid is 1, 2, 3 keV, the query \<open>kT = 3\<close> is answered from the
  table block of 3 keV and is not zero.
\<close>

theorem zero_spectrum_at_maximum_counterexample:
  "TableApecModel_init sample_physics ''/atomdb'' 1 2 2 ''2.0.2'' False = Inr sample_unprepared
   \<and> TableApecModel_prepare_spectrum sample_fs sample_unprepared 0 = (sample_model 0, [], None)
   \<and> Tvals (sample_model 0) = Some [1, 2, 3]
   \<and> TableApecModel_get_spectrum sample_physics (sample_model 0) 3 = Inr ([0, 2], [0, 0])
   \<and> TableApecModel_get_spectrum sample_physics (sample_model 0) 3
         \<noteq> Inr (replicate 2 0, replicate 2 0)"
  by (simp add: sample_init sample_prepare sample_get_spectrum_3 numeral_2_eq_2)
     (simp add: sample_model_eq)

subsection \<open>Queries at a tabulated temperature\<close>




subsection \<open>Interpolation between two tabulated temperatures\<close>

text \<open>
  Claim C3. For a prepared emission model whose temperature grid \<open>T\<close> is sorted, and a
  \<open>kT\<close> strictly between \<open>T[i]\<close> and \<open>T[i+1]\<close>, the search gives \<open>tindex = i\<close>, the
  fraction is \<open>dT = (kT - T[i]) / (T[i+1] - T[i])\<close>, and \<^verbatim>\<open>get_spectrum(kT)\<close> returns a pair
  exactly when the four sums of \<^verbatim>\<open>_make_spectrum\<close> (trace and metal elements, at the table
  blocks \<open>i+2\<close> and \<open>i+3\<close>) are all defined; each returned component is then the blend
  \<open>left * (1 - dT) + right * dT\<close> of the sum at block \<open>i+2\<close> and the sum at block \<open>i+3\<close>.
\<close>

theorem linear_interpolation_law:
  assumes "TableApecModel_init ph root_dir e_lo e_hi n vers broad = Inr m0"
    and "TableApecModel_prepare_spectrum fs m0 zobs = (m, msgs, None)"
    and "Tvals m = Some T" and "sorted T"
    and "i + 1 < length T" and "T ! i < kT" and "kT < T ! (i + 1)"
  shows "temperature_index T kT = int i
       \<and> interpolation_fraction T (np_diff T) i kT = Inr ((kT - T ! i) / (T ! (i + 1) - T ! i))
       \<and> (TableApecModel_get_spectrum ph m kT = Inr (cosmic_spec, metal_spec) \<longleftrightarrow>
            (\<exists>cspec_l cspec_r mspec_l mspec_r.
               element_sum ph m (i + 2) (cosmic_elem m) (replicate (nat n) 0) = Inr cspec_l
             \<and> element_sum ph m (i + 3) (cosmic_elem m) (replicate (nat n) 0) = Inr cspec_r
             \<and> element_sum ph m (i + 2) (metal_elem m) (replicate (nat n) 0) = Inr mspec_l
             \<and> element_sum ph m (i + 3) (metal_elem m) (replicate (nat n) 0) = Inr mspec_r
             \<and> cosmic_spec = blend ((kT - T ! i) / (T ! (i + 1) - T ! i)) cspec_l cspec_r
             \<and> metal_spec = blend ((kT - T ! i) / (T ! (i + 1) - T ! i)) mspec_l mspec_r))"
proof -
  have n: "nchan m = n" "0 \<le> n" using prepared_channels[OF assms(1,2)] by simp_all
  have d: "dTvals m = Some (np_diff T)" using prepared_grid[OF assms(1-3)] .
  have le: "kT \<le> T ! (i + 1)" using assms(7) by simp
  have ti: "temperature_index T kT = int i"
    using temperature_index_bracket[OF assms(4,5,6) le] .
  have fr: "interpolation_fraction T (np_diff T) i kT
              = Inr ((kT - T ! i) / (T ! (i + 1) - T ! i))"
    using interpolation_fraction_diff[OF assms(5)] .
  have "TableApecModel_get_spectrum ph m kT = Inr (cosmic_spec, metal_spec) \<longleftrightarrow>
            (\<exists>cspec_l cspec_r mspec_l mspec_r.
               element_sum ph m (i + 2) (cosmic_elem m) (replicate (nat n) 0) = Inr cspec_l
             \<and> element_sum ph m (i + 3) (cosmic_elem m) (replicate (nat n) 0) = Inr cspec_r
             \<and> element_sum ph m (i + 2) (metal_elem m) (replicate (nat n) 0) = Inr mspec_l
             \<and> element_sum ph m (i + 3) (metal_elem m) (replicate (nat n) 0) = Inr mspec_r
             \<and> cosmic_spec = blend ((kT - T ! i) / (T ! (i + 1) - T ! i)) cspec_l cspec_r
             \<and> metal_spec = blend ((kT - T ! i) / (T ! (i + 1) - T ! i)) mspec_l mspec_r)"
    unfolding get_spectrum_in_bracket[OF n assms(3) d assms(4,5,6) le]
    by (auto simp: bind_err_eq_Inr accumulate_Inr_iff)
  with ti fr show ?thesis by blast
qed

theorem linear_interpolation_law_witness:
  "TableApecModel_init sample_physics ''/atomdb'' 1 2 2 ''2.0.2'' False = Inr sample_unprepared
   \<and> TableApecModel_prepare_spectrum sample_fs sample_unprepared 0 = (sample_model 0, [], None)
   \<and> Tvals (sample_model 0) = Some [1, 2, 3]
   \<and> sorted [1, 2, 3 :: real] \<and> (1 :: real) < 3 / 2 \<and> (3 / 2 :: real) < 2
   \<and> temperature_index [1, 2, 3] (3 / 2) = 0
   \<and> interpolation_fraction [1, 2, 3] (np_diff [1, 2, 3]) 0 (3 / 2) = Inr (1 / 2)
   \<and> TableApecModel_get_spectrum sample_physics (sample_model 0) (3 / 2)
       = Inr ([53 / 8, 7 / 8], [0, 4])"
proof -
  have p: "TableApecModel_prepare_spectrum sample_fs sample_unprepared 0 = (sample_model 0, [], None)"
    by (simp add: sample_prepare)
  have s: "sorted [1, 2, 3 :: real]" by simp
  have b: "0 + 1 < length [1, 2, 3 :: real]" "[1, 2, 3 :: real] ! 0 < 3 / 2"
      "3 / 2 < [1, 2, 3 :: real] ! (0 + 1)"
    by simp_all
  note law = linear_interpolation_law[OF sample_init p sample_fields(2) s b]
  have sums:
    "element_sum sample_physics (sample_model 0) (0 + 2) (cosmic_elem (sample_model 0))
       (replicate (nat 2) 0) = Inr [21 / 4, 7 / 4]"
    "element_sum sample_physics (sample_model 0) (0 + 3) (cosmic_elem (sample_model 0))
       (replicate (nat 2) 0) = Inr [8, 0]"
    "element_sum sample_physics (sample_model 0) (0 + 2) (metal_elem (sample_model 0))
       (replicate (nat 2) 0) = Inr [0, 6]"
    "element_sum sample_physics (sample_model 0) (0 + 3) (metal_elem (sample_model 0))
       (replicate (nat 2) 0) = Inr [0, 2]"
    using sample_cosmic_sum[of "0 + 2"] sample_cosmic_sum[of "0 + 3"]
      sample_metal_sum[of "0 + 2"] sample_metal_sum[of "0 + 3"]
    by (simp_all add: replicate_2)
  have "TableApecModel_get_spectrum sample_physics (sample_model 0) (3 / 2)
          = Inr (blend ((3 / 2 - [1, 2, 3] ! 0) / ([1, 2, 3] ! (0 + 1) - [1, 2, 3] ! 0))
                   [21 / 4, 7 / 4] [8, 0],
                 blend ((3 / 2 - [1, 2, 3] ! 0) / ([1, 2, 3] ! (0 + 1) - [1, 2, 3] ! 0))
                   [0, 6] [0, 2])"
    by (rule law[THEN conjunct2, THEN conjunct2, THEN iffD2]) (use sums in blast)
  then have g: "TableApecModel_get_spectrum sample_physics (sample_model 0) (3 / 2)
       = Inr ([53 / 8, 7 / 8], [0, 4])"
    by (simp add: blend_def)
  have "temperature_index [1, 2, 3] (3 / 2) = 0
      \<and> interpolation_fraction [1, 2, 3] (np_diff [1, 2, 3]) 0 (3 / 2) = Inr (1 / 2)"
    using law by simp
  then show ?thesis using g p s sample_init sample_fields(2) by simp
qed

subsection \<open>Lines without thermal broadening\<close>

text \<open>
  Claim C4. Take a prepared emission model built without thermal broadening on a grid
  \<open>0 < emin < emax\<close>, with \<open>hc > 0\<close>, and a table block of line rows. Then
  \<^item> the selected rows are exactly the rows of the element whose wavelength lies strictly
    between \<open>minlam\<close> and \<open>maxlam\<close>, in the order of the table;
  \<^item> every selected row has a positive wavelength, and its observed energy is
    \<open>E0 = hc / lambda * scale_factor\<close>;
  \<^item> the index \<^verbatim>\<open>searchsorted(ebins, E0, side='right') - 1\<close> is that of the rightmost edge
    \<open>\<le> E0\<close>: the edges up to it are \<open>\<le> E0\<close>, the edges after it are \<open>> E0\<close>, and it is
    \<open>-1\<close> when no edge is \<open>\<le> E0\<close>;
  \<^item> the line part of \<^verbatim>\<open>_make_spectrum\<close> returns an array exactly when every selected row
    has a valid index, and then channel \<open>j\<close> of it holds the sum of the amplitudes of the
    selected rows whose index, read as an array index, is \<open>j\<close>: each amplitude is added to
    one channel and to no other;
  \<^item> for a redshift that is not negative and a grid of at least one channel every
    selected row has a valid index, so the line part does return an array.
\<close>

theorem lines_binned:
  assumes "TableApecModel_init ph root_dir e_lo e_hi n vers False = Inr m0"
    and "TableApecModel_prepare_spectrum fs m0 zobs = (m, msgs, None)"
    and "0 < hc ph" and "0 < e_lo" and "e_lo < e_hi"
    and "line_handle m = Some lh" and "b < length lh" and "lh ! b = LineHDU rows"
    and "minlam m = Some lo" and "maxlam m = Some hi" and "scale_factor m = Some sf"
  shows "select_lines rows elem lo hi
           = filter (\<lambda>r. element r = elem \<and> lo < lambda r \<and> lambda r < hi) rows
       \<and> (\<forall>r\<in>set (select_lines rows elem lo hi).
             0 < lambda r \<and> line_energy ph sf r = hc ph / lambda r * sf)
       \<and> (\<forall>E. - 1 \<le> channel_index (ebins m) E \<and> channel_index (ebins m) E \<le> n
             \<and> (\<forall>k. int k \<le> channel_index (ebins m) E \<longrightarrow> ebins m ! k \<le> E)
             \<and> (\<forall>k. channel_index (ebins m) E < int k \<and> k \<le> nat n \<longrightarrow> E < ebins m ! k))
       \<and> (line_spectrum ph m elem b = Inr spec \<longleftrightarrow>
             (\<forall>r\<in>set (select_lines rows elem lo hi).
                 0 \<le> wrap_index n (channel_index (ebins m) (line_energy ph sf r))
               \<and> wrap_index n (channel_index (ebins m) (line_energy ph sf r)) < n)
           \<and> length spec = nat n
           \<and> (\<forall>j<nat n. spec ! j =
                 sum_list (map epsilon
                   (filter (\<lambda>r. wrap_index n (channel_index (ebins m) (line_energy ph sf r)) = int j)
                      (select_lines rows elem lo hi)))))
       \<and> (0 \<le> zobs \<and> 0 < n \<longrightarrow> (\<exists>spec. line_spectrum ph m elem b = Inr spec))"
proof -
  note len = prepared_lengths[OF assms(1,2)]
  have n: "nchan m = n" "0 \<le> n" and tb: "thermal_broad m = False" using len by simp_all
  have le: "e_lo \<le> e_hi" using assms(5) by simp
  have srt: "sorted (ebins m)" using prepared_edges[OF assms(1,2) le] by simp
  have lo: "0 < lo" using prepared_window_positive[OF assms(1,2,3,4) le assms(9)] .
  have sel: "select_lines rows elem lo hi
           = filter (\<lambda>r. element r = elem \<and> lo < lambda r \<and> lambda r < hi) rows"
    by (simp add: select_lines_def)
  have en: "\<forall>r\<in>set (select_lines rows elem lo hi).
             0 < lambda r \<and> line_energy ph sf r = hc ph / lambda r * sf"
    using lo by (auto simp: select_lines_def line_energy_def)
  have ch: "- 1 \<le> channel_index (ebins m) E \<and> channel_index (ebins m) E \<le> n
             \<and> (\<forall>k. int k \<le> channel_index (ebins m) E \<longrightarrow> ebins m ! k \<le> E)
             \<and> (\<forall>k. channel_index (ebins m) E < int k \<and> k \<le> nat n \<longrightarrow> E < ebins m ! k)" for E
    using channel_index_props[OF srt, of E] len by auto
  have ret: "\<exists>spec. line_spectrum ph m elem b = Inr spec" if z: "0 \<le> zobs" and c: "0 < n"
  proof -
    have top: "ebins m ! nat n = e_hi" and ln: "nat n < length (ebins m)"
      using prepared_edges[OF assms(1,2) le] c len by simp_all
    have "0 \<le> wrap_index n (channel_index (ebins m) (line_energy ph sf r))
         \<and> wrap_index n (channel_index (ebins m) (line_energy ph sf r)) < n"
      if r: "r \<in> set (select_lines rows elem lo hi)" for r
    proof -
      have "line_energy ph sf r < e_hi"
        using selected_below_top[OF assms(1,2,3,4) le c z assms(9,11) r] .
      then have "channel_index (ebins m) (line_energy ph sf r) < int (nat n)"
        using channel_index_below_iff[OF srt ln, of "line_energy ph sf r"] top by simp
      then show ?thesis
        using ch[of "line_energy ph sf r"] c by (auto simp: wrap_index_def)
    qed
    then show ?thesis
      using line_spectrum_defined_iff[OF n tb assms(6,7,8,9,10,11), of ph elem] by blast
  qed
  show ?thesis
    using sel en ch ret
      line_spectrum_unbroadened[OF n tb assms(6,7,8,9,10,11), of ph elem spec]
    by blast
qed

theorem lines_binned_witness:
  "TableApecModel_init sample_physics ''/atomdb'' 1 2 2 ''2.0.2'' False = Inr sample_unprepared
   \<and> TableApecModel_prepare_spectrum sample_fs sample_unprepared 0 = (sample_model 0, [], None)
   \<and> hc sample_physics = 12.3984193
   \<and> line_handle (sample_model 0) = Some sample_line_hdus
   \<and> sample_line_hdus ! 2 = LineHDU [\<lparr>element = 2, lambda = 10, epsilon = 4\<rparr>,
                                       \<lparr>element = 8, lambda = 8, epsilon = 6\<rparr>,
                                       \<lparr>element = 2, lambda = 20, epsilon = 100\<rparr>]
   \<and> minlam (sample_model 0) = Some (12.3984193 / 2)
   \<and> maxlam (sample_model 0) = Some 12.3984193
   \<and> scale_factor (sample_model 0) = Some 1
   \<and> ebins (sample_model 0) = [1, 3 / 2, 2]
   \<and> select_lines [\<lparr>element = 2, lambda = 10, epsilon = 4\<rparr>,
                    \<lparr>element = 8, lambda = 8, epsilon = 6\<rparr>,
                    \<lparr>element = 2, lambda = 20, epsilon = 100\<rparr>] 2 (12.3984193 / 2) 12.3984193
       = [\<lparr>element = 2, lambda = 10, epsilon = 4\<rparr>]
   \<and> line_energy sample_physics 1 \<lparr>element = 2, lambda = 10, epsilon = 4\<rparr> = 1.23984193
   \<and> channel_index [1, 3 / 2, 2] 1.23984193 = 0
   \<and> line_spectrum sample_physics (sample_model 0) 2 2 = Inr [4, 0]
   \<and> line_spectrum sample_physics (sample_model 0) 8 2 = Inr [0, 6]"
proof -
  let ?rows = "[\<lparr>element = 2, lambda = 10, epsilon = 4\<rparr>,
                \<lparr>element = 8, lambda = 8, epsilon = 6\<rparr>,
                \<lparr>element = 2, lambda = 20, epsilon = 100\<rparr>]"
  have p: "TableApecModel_prepare_spectrum sample_fs sample_unprepared 0 = (sample_model 0, [], None)"
    by (simp add: sample_prepare)
  have h: "0 < hc sample_physics" "(0::real) < 1" "(1::real) < 2" "hc sample_physics = 12.3984193"
    by (simp_all add: sample_physics_def)
  have f: "line_handle (sample_model 0) = Some sample_line_hdus" "2 < length sample_line_hdus"
      "sample_line_hdus ! 2 = LineHDU ?rows"
      "minlam (sample_model 0) = Some (12.3984193 / 2)"
      "maxlam (sample_model 0) = Some 12.3984193"
      "scale_factor (sample_model 0) = Some 1"
    by (simp_all add: sample_model_eq sample_line_hdus_def)
  have eb: "ebins (sample_model 0) = [1, 3 / 2, 2]"
    by (simp add: sample_model_eq sample_unprepared_eq)
  note t = lines_binned[OF sample_init p h(1,2,3) f, unfolded eb]
  have s2: "select_lines ?rows 2 (12.3984193 / 2) 12.3984193
              = [\<lparr>element = 2, lambda = 10, epsilon = 4\<rparr>]"
    using t[THEN conjunct1, of 2] by simp
  have s8: "select_lines ?rows 8 (12.3984193 / 2) 12.3984193
              = [\<lparr>element = 8, lambda = 8, epsilon = 6\<rparr>]"
    using t[THEN conjunct1, of 8] by simp
  have e2: "line_energy sample_physics 1 \<lparr>element = 2, lambda = 10, epsilon = 4\<rparr> = 1.23984193"
    using t[THEN conjunct2, THEN conjunct1, of 2] s2 h(4) by simp
  have e8: "line_energy sample_physics 1 \<lparr>element = 8, lambda = 8, epsilon = 6\<rparr> = 1.5498024125"
    using t[THEN conjunct2, THEN conjunct1, of 8] s8 h(4) by simp
  have c2: "channel_index [1, 3 / 2, 2] 1.23984193 = 0"
    by (simp add: sample_channel_index)
  have c8: "channel_index [1, 3 / 2, 2] 1.5498024125 = 1"
    by (simp add: sample_channel_index)
  have l2: "line_spectrum sample_physics (sample_model 0) 2 2 = Inr [4, 0]"
    by (rule t[THEN conjunct2, THEN conjunct2, THEN conjunct2, THEN conjunct1, THEN iffD2])
       (unfold s2, simp add: e2 sample_channel_index wrap_index_def less_2_cases_iff)
  have l8: "line_spectrum sample_physics (sample_model 0) 8 2 = Inr [0, 6]"
    by (rule t[THEN conjunct2, THEN conjunct2, THEN conjunct2, THEN conjunct1, THEN iffD2])
       (unfold s8, simp add: e8 sample_channel_index wrap_index_def less_2_cases_iff)
  show ?thesis using sample_init p h(4) f eb s2 e2 c2 l2 l8 by simp
qed

subsection \<open>The energy grid\<close>



subsection \<open>The absorption model\<close>

lemma absorb_init_result:
  assumes "fs fname = Some (H5File f)"
    and "TableAbsorbModel_init fs fname column = Inr m"
  shows "nH m = column * 10 ^ 22 \<and> sigma m = cross_section f
           \<and> nchan m = int (length (cross_section f)) \<and> filename m = fname"
proof -
  obtain e_lo where lo: "np_min (energy f) = Inr e_lo"
    using assms by (cases "np_min (energy f)") (simp_all add: TableAbsorbModel_init_def)
  obtain e_hi where hi: "np_max (energy f) = Inr e_hi"
    using assms lo by (cases "np_max (energy f)") (simp_all add: TableAbsorbModel_init_def)
  obtain sm where sm: "SpectralModel_init e_lo e_hi (int (length (cross_section f))) = Inr sm"
    using assms lo hi
    by (cases "SpectralModel_init e_lo e_hi (int (length (cross_section f)))")
       (simp_all add: TableAbsorbModel_init_def)
  have n: "nchan sm = int (length (cross_section f))"
    using SpectralModel_init_fields[OF sm] by simp
  show ?thesis using assms lo hi sm n by (auto simp: TableAbsorbModel_init_def)
qed


text \<open>
  Claim C6, as amended. A \<^verbatim>\<open>TableAbsorbModel\<close> constructed with column density \<open>nH\<close> stores
  \<open>nH * 10^22\<close>, and \<^verbatim>\<open>get_spectrum()\<close> returns \<open>exp (- sigma * nH * 10^22)\<close> channel by
  channel. When \<open>nH\<close> is not negative and no tabulated cross section is negative, every
  returned value lies in \<open>[0, 1]\<close>; at \<open>nH = 0\<close> every returned value is 1.
\<close>

theorem beer_lambert_transmission:
  assumes "fs fname = Some (H5File f)"
    and "TableAbsorbModel_init fs fname column = Inr m"
  shows "nH m = column * 10 ^ 22
       \<and> TableAbsorbModel_get_spectrum m
             = map (\<lambda>s. exp (- s * (column * 10 ^ 22))) (cross_section f)
       \<and> int (length (TableAbsorbModel_get_spectrum m)) = nchan m
       \<and> (0 \<le> column \<and> (\<forall>s\<in>set (cross_section f). 0 \<le> s)
            \<longrightarrow> (\<forall>v\<in>set (TableAbsorbModel_get_spectrum m). 0 \<le> v \<and> v \<le> 1))
       \<and> (column = 0
            \<longrightarrow> TableAbsorbModel_get_spectrum m = replicate (length (cross_section f)) 1)"
proof -
  note r = absorb_init_result[OF assms]
  have spec: "TableAbsorbModel_get_spectrum m
                = map (\<lambda>s. exp (- s * (column * 10 ^ 22))) (cross_section f)"
    using r by (simp add: TableAbsorbModel_get_spectrum_def)
  have range: "0 \<le> v \<and> v \<le> 1"
    if c: "0 \<le> column" and nonneg: "\<forall>s\<in>set (cross_section f). 0 \<le> s"
      and v: "v \<in> set (TableAbsorbModel_get_spectrum m)" for v
  proof -
    obtain s where s: "s \<in> set (cross_section f)" "v = exp (- s * (column * 10 ^ 22))"
      using v spec by auto
    have "0 \<le> s * (column * 10 ^ 22)" using c nonneg s(1) by simp
    then show ?thesis using s(2) by simp
  qed
  have one: "TableAbsorbModel_get_spectrum m = replicate (length (cross_section f)) 1"
    if "column = 0"
    using that spec by (simp add: map_replicate_const)
  show ?thesis using r spec range one by simp
qed

theorem beer_lambert_transmission_witness:
  "sample_fs ''abs_table.h5''
     = Some (H5File \<lparr>energy = [1, 2, 3], cross_section = [0, 2 / 10 ^ 22]\<rparr>)
   \<and> (\<exists>m. TableAbsorbModel_init sample_fs ''abs_table.h5'' (1 / 2) = Inr m
          \<and> nH m = 1 / 2 * 10 ^ 22
          \<and> TableAbsorbModel_get_spectrum m = [1, exp (- 1)]
          \<and> (\<forall>v\<in>set (TableAbsorbModel_get_spectrum m). 0 \<le> v \<and> v \<le> 1))
   \<and> (\<exists>m. TableAbsorbModel_init sample_fs ''abs_table.h5'' 0 = Inr m
          \<and> TableAbsorbModel_get_spectrum m = [1, 1])"
proof -
  let ?f = "\<lparr>energy = [1, 2, 3], cross_section = [0, 2 / 10 ^ 22]\<rparr>"
  have fs: "sample_fs ''abs_table.h5'' = Some (H5File ?f)"
    by (simp add: sample_fs_def)
  have ex: "\<exists>m. TableAbsorbModel_init sample_fs ''abs_table.h5'' c = Inr m" for c
    by (simp add: TableAbsorbModel_init_def fs np_min_def np_max_def SpectralModel_init_def
        linspace_def Let_def)
  obtain m1 where m1: "TableAbsorbModel_init sample_fs ''abs_table.h5'' (1 / 2) = Inr m1"
    using ex by blast
  obtain m0 where m0: "TableAbsorbModel_init sample_fs ''abs_table.h5'' 0 = Inr m0"
    using ex by blast
  have "nH m1 = 1 / 2 * 10 ^ 22 \<and> TableAbsorbModel_get_spectrum m1 = [1, exp (- 1)]
          \<and> (\<forall>v\<in>set (TableAbsorbModel_get_spectrum m1). 0 \<le> v \<and> v \<le> 1)"
    using beer_lambert_transmission[OF fs m1] by simp
  moreover have "TableAbsorbModel_get_spectrum m0 = [1, 1]"
    using beer_lambert_transmission[OF fs m0] by (simp add: numeral_2_eq_2)
  ultimately show ?thesis using fs m1 m0 by blast
qed

text \<open>
  The claim as written bounds the transmission for every table. A table with a negative
  cross section gives a value above 1.
\<close>

theorem transmission_above_one_counterexample:
  "TableAbsorbModel_init sample_fs ''negative.h5'' 1 =
     Inr \<lparr>emin = 1, emax = 2, nchan = 1, ebins = [1, 2], de = [1], emid = [3 / 2],
          filename = ''negative.h5'', sigma = [- 1], nH = 10 ^ 22\<rparr>
   \<and> (0::real) \<le> 1
   \<and> TableAbsorbModel_get_spectrum
         \<lparr>emin = 1, emax = 2, nchan = 1, ebins = [1, 2], de = [1], emid = [3 / 2],
          filename = ''negative.h5'', sigma = [- 1], nH = 10 ^ 22\<rparr> = [exp (10 ^ 22)]
   \<and> (1::real) < exp (10 ^ 22)"
  by (simp add: TableAbsorbModel_init_def sample_fs_def np_min_def np_max_def
      SpectralModel_init_def linspace_def np_diff_def TableAbsorbModel_get_spectrum_def)

subsection \<open>Construction without a range check\<close>

text \<open>
  Claim C7, as amended. The constructor checks neither the order of \<open>emin\<close> and \<open>emax\<close>
  nor the sign of \<open>nchan\<close>, and the module has no \<^verbatim>\<open>InvalidRangeError\<close>: for every \<open>emin\<close>
  and \<open>emax\<close>, in either order or equal, and every \<open>nchan \<ge> 0\<close> the construction succeeds and
  stores the three parameters and \<open>nchan + 1\<close> edges that start at \<open>emin\<close> and, for
  \<open>nchan > 0\<close>, end at \<open>emax\<close>.
\<close>

theorem construction_has_no_range_check:
  assumes "0 \<le> n"
  shows "\<exists>m. SpectralModel_init e_lo e_hi n = Inr m
           \<and> emin m = e_lo \<and> emax m = e_hi \<and> nchan m = n
           \<and> length (ebins m) = nat n + 1 \<and> ebins m ! 0 = e_lo
           \<and> (0 < n \<longrightarrow> ebins m ! nat n = e_hi)
           \<and> length (de m) = nat n \<and> length (emid m) = nat n"
proof (cases "n = 0")
  case True
  then show ?thesis
    by (simp add: SpectralModel_init_def linspace_def np_diff_def)
next
  case False
  then have pos: "0 < n" using assms by simp
  define eb where "eb = map (\<lambda>i. real i * ((e_hi - e_lo) / real (nat n)) + e_lo) [0..<nat n] @ [e_hi]"
  have len: "length eb = nat n + 1" by (simp add: eb_def)
  have first: "eb ! 0 = e_lo" using pos by (simp add: eb_def nth_append)
  have last: "eb ! nat n = e_hi" by (simp add: eb_def nth_append)
  have "SpectralModel_init e_lo e_hi n =
          Inr \<lparr>emin = e_lo, emax = e_hi, nchan = n, ebins = eb, de = np_diff eb,
               emid = map2 (\<lambda>hi lo. 0.5 * (hi + lo)) (tl eb) (butlast eb)\<rparr>"
    using linspace_edges[OF pos] by (simp add: SpectralModel_init_def eb_def)
  then show ?thesis using len first last by (simp add: np_diff_length)
qed

theorem construction_has_no_range_check_witness:
  "(0::int) \<le> 1 \<and> (1::real) \<le> 2 \<and>
   (\<exists>m. SpectralModel_init 2 1 1 = Inr m \<and> emin m = 2 \<and> emax m = 1 \<and> nchan m = 1
        \<and> length (ebins m) = 2 \<and> ebins m ! 0 = 2 \<and> ebins m ! 1 = 1)"
  using construction_has_no_range_check[of 1 2 1] by auto

text \<open>
  The claim as written: a grid with \<open>emax \<le> emin\<close>, or with \<open>nchan = 0\<close>, is refused. Both
  are constructed.
\<close>

theorem no_range_check_counterexample:
  "(1::real) \<le> 2 \<and>
   SpectralModel_init 2 1 1 =
     Inr \<lparr>emin = 2, emax = 1, nchan = 1, ebins = [2, 1], de = [- 1], emid = [3 / 2]\<rparr> \<and>
   (0::int) \<le> 0 \<and>
   SpectralModel_init 1 2 0 =
     Inr \<lparr>emin = 1, emax = 2, nchan = 0, ebins = [1], de = [], emid = []\<rparr>"
  by (simp add: SpectralModel_init_def linspace_def np_diff_def)

subsection \<open>Missing table files\<close>

text \<open>
  Claim C8, as amended. For \<^verbatim>\<open>TableApecModel\<close> the constructor reads no file and leaves
  every attribute of the preparation unset, and a missing table file makes
  \<^verbatim>\<open>prepare_spectrum\<close> raise an \<^verbatim>\<open>IOError\<close> that it has logged: with the line file missing
  the object is unchanged, and with the line file present and the continuum file missing
  the continuum handle, the temperature grid, the wavelength bounds and the scale factor
  are unchanged. For \<^verbatim>\<open>TableAbsorbModel\<close> the \<^verbatim>\<open>IOError\<close> for a missing file is raised by
  the constructor, so that no object exists.
\<close>

theorem missing_table_file:
  "(0 \<le> n \<longrightarrow> (\<exists>m0. TableApecModel_init ph root_dir e_lo e_hi n vers broad = Inr m0))
   \<and> (TableApecModel_init ph root_dir e_lo e_hi n vers broad = Inr m0 \<longrightarrow>
        line_handle m0 = None \<and> coco_handle m0 = None \<and> Tvals m0 = None \<and> dTvals m0 = None
        \<and> minlam m0 = None \<and> maxlam m0 = None \<and> scale_factor m0 = None)
   \<and> (fs (linefile m) = None \<longrightarrow>
        TableApecModel_prepare_spectrum fs m zobs =
          (m, [''LINE file '' @ linefile m @ '' does not exist''],
           Some (IOError (''LINE file '' @ linefile m @ '' does not exist''))))
   \<and> (fs (linefile m) = Some (FitsFile lh) \<and> fs (cocofile m) = None \<longrightarrow>
        (\<exists>m'. TableApecModel_prepare_spectrum fs m zobs =
          (m', [''COCO file '' @ cocofile m @ '' does not exist''],
           Some (IOError (''COCO file '' @ cocofile m @ '' does not exist'')))
          \<and> coco_handle m' = coco_handle m \<and> Tvals m' = Tvals m \<and> dTvals m' = dTvals m
          \<and> minlam m' = minlam m \<and> maxlam m' = maxlam m
          \<and> scale_factor m' = scale_factor m))
   \<and> (fs fname = None \<longrightarrow>
        TableAbsorbModel_init fs fname column
          = Inl (IOError (''File does not exist: '' @ fname @ ''.'')))"
proof (intro conjI impI)
  assume "0 \<le> n"
  then show "\<exists>m0. TableApecModel_init ph root_dir e_lo e_hi n vers broad = Inr m0"
    by (rule init_succeeds)
next
  assume "TableApecModel_init ph root_dir e_lo e_hi n vers broad = Inr m0"
  from init_result[OF this]
  show "line_handle m0 = None" "coco_handle m0 = None" "Tvals m0 = None" "dTvals m0 = None"
    "minlam m0 = None" "maxlam m0 = None" "scale_factor m0 = None"
    by blast+
next
  assume "fs (linefile m) = None"
  then show "TableApecModel_prepare_spectrum fs m zobs =
          (m, [''LINE file '' @ linefile m @ '' does not exist''],
           Some (IOError (''LINE file '' @ linefile m @ '' does not exist'')))"
    by (simp add: TableApecModel_prepare_spectrum_def pyfits_open_def)
next
  assume "fs (linefile m) = Some (FitsFile lh) \<and> fs (cocofile m) = None"
  then show "\<exists>m'. TableApecModel_prepare_spectrum fs m zobs =
          (m', [''COCO file '' @ cocofile m @ '' does not exist''],
           Some (IOError (''COCO file '' @ cocofile m @ '' does not exist'')))
          \<and> coco_handle m' = coco_handle m \<and> Tvals m' = Tvals m \<and> dTvals m' = dTvals m
          \<and> minlam m' = minlam m \<and> maxlam m' = maxlam m
          \<and> scale_factor m' = scale_factor m"
    by (simp add: TableApecModel_prepare_spectrum_def pyfits_open_def Let_def)
next
  assume "fs fname = None"
  then show "TableAbsorbModel_init fs fname column
          = Inl (IOError (''File does not exist: '' @ fname @ ''.''))"
    by (simp add: TableAbsorbModel_init_def)
qed

theorem missing_table_file_witness:
  "(\<exists>m0. TableApecModel_init sample_physics ''/nowhere'' 1 2 2 ''2.0.2'' False = Inr m0
        \<and> linefile m0 = ''/nowhere/apec_v2.0.2_line.fits''
        \<and> sample_fs (linefile m0) = None
        \<and> TableApecModel_prepare_spectrum sample_fs m0 0 =
             (m0, [''LINE file /nowhere/apec_v2.0.2_line.fits does not exist''],
              Some (IOError ''LINE file /nowhere/apec_v2.0.2_line.fits does not exist''))
        \<and> line_handle m0 = None \<and> coco_handle m0 = None \<and> Tvals m0 = None
        \<and> minlam m0 = None \<and> maxlam m0 = None)
   \<and> (\<exists>m0 m'. TableApecModel_init sample_physics ''/lineonly'' 1 2 2 ''2.0.2'' False = Inr m0
        \<and> sample_fs (linefile m0) = Some (FitsFile sample_line_hdus)
        \<and> sample_fs (cocofile m0) = None
        \<and> TableApecModel_prepare_spectrum sample_fs m0 0 =
             (m', [''COCO file /lineonly/apec_v2.0.2_coco.fits does not exist''],
              Some (IOError ''COCO file /lineonly/apec_v2.0.2_coco.fits does not exist''))
        \<and> coco_handle m' = None \<and> Tvals m' = None \<and> minlam m' = None \<and> maxlam m' = None
        \<and> scale_factor m' = None)
   \<and> sample_fs ''missing.h5'' = None
   \<and> TableAbsorbModel_init sample_fs ''missing.h5'' (1 / 10)
         = Inl (IOError ''File does not exist: missing.h5.'')"
proof -
  let ?P = "\<lambda>r. TableApecModel_init sample_physics r 1 2 2 ''2.0.2'' False"
  note t = missing_table_file[where ph = sample_physics and e_lo = 1 and e_hi = 2 and n = 2
      and vers = "''2.0.2''" and broad = False and fs = sample_fs and zobs = 0]
  note t1 = t[THEN conjunct1, rule_format]
    and t2 = t[THEN conjunct2, THEN conjunct1, rule_format]
    and t3 = t[THEN conjunct2, THEN conjunct2, THEN conjunct1, rule_format]
    and t4 = t[THEN conjunct2, THEN conjunct2, THEN conjunct2, THEN conjunct1, rule_format]
    and t5 = t[THEN conjunct2, THEN conjunct2, THEN conjunct2, THEN conjunct2, rule_format]
  obtain a where a: "?P ''/nowhere'' = Inr a"
    using t1[where root_dir = "''/nowhere''"] by auto
  have pa: "linefile a = ''/nowhere/apec_v2.0.2_line.fits''"
    using init_paths[OF a] by (simp add: path_join_def)
  have fa: "sample_fs (linefile a) = None"
    by (simp add: pa sample_fs_def)
  have ua: "line_handle a = None \<and> coco_handle a = None \<and> Tvals a = None
        \<and> minlam a = None \<and> maxlam a = None"
    using t2[OF a] by simp
  have ra: "TableApecModel_prepare_spectrum sample_fs a 0 =
             (a, [''LINE file /nowhere/apec_v2.0.2_line.fits does not exist''],
              Some (IOError ''LINE file /nowhere/apec_v2.0.2_line.fits does not exist''))"
    using t3[OF fa] pa by simp
  obtain b where b: "?P ''/lineonly'' = Inr b"
    using t1[where root_dir = "''/lineonly''"] by auto
  have pb: "linefile b = ''/lineonly/apec_v2.0.2_line.fits''"
      "cocofile b = ''/lineonly/apec_v2.0.2_coco.fits''"
    using init_paths[OF b] by (simp_all add: path_join_def)
  have fb: "sample_fs (linefile b) = Some (FitsFile sample_line_hdus)"
      "sample_fs (cocofile b) = None"
    by (simp_all add: pb sample_fs_def)
  have ub: "coco_handle b = None \<and> Tvals b = None \<and> dTvals b = None
        \<and> minlam b = None \<and> maxlam b = None \<and> scale_factor b = None"
    using t2[OF b] by simp
  obtain b' where rb: "TableApecModel_prepare_spectrum sample_fs b 0 =
             (b', [''COCO file /lineonly/apec_v2.0.2_coco.fits does not exist''],
              Some (IOError ''COCO file /lineonly/apec_v2.0.2_coco.fits does not exist''))"
      "coco_handle b' = None \<and> Tvals b' = None \<and> minlam b' = None \<and> maxlam b' = None
        \<and> scale_factor b' = None"
    using t4[of b sample_line_hdus] fb pb ub by auto
  have h: "sample_fs ''missing.h5'' = None" by (simp add: sample_fs_def)
  have c: "TableAbsorbModel_init sample_fs ''missing.h5'' (1 / 10)
         = Inl (IOError ''File does not exist: missing.h5.'')"
    using t5[OF h, of "1 / 10"] by simp
  show ?thesis using a pa fa ua ra b fb rb h c by blast
qed

text \<open>
  The claim as written places the error of both models in the prepare operation. The
  absorption model raises it when it is constructed.
\<close>

theorem missing_absorption_table_counterexample:
  "sample_fs ''no_such_table.h5'' = None
   \<and> TableAbsorbModel_init sample_fs ''no_such_table.h5'' 1
         = Inl (IOError ''File does not exist: no_such_table.h5.'')"
  by (simp add: sample_fs_def TableAbsorbModel_init_def)

subsection \<open>Repeated queries\<close>


subsection \<open>Lines redshifted below the grid\<close>

lemma sample_redshifted_line:
  "line_spectrum sample_physics (sample_model 1) 2 2 = Inr [0, 4]"
  by (simp add: sample_model_eq sample_unprepared_eq line_spectrum_def np_zeros_2 attr_def
      getitem_def sample_line_hdus_def select_lines_def line_energy_def sample_physics_def
      sample_channel_index add_at_def wrap_index_def Let_def)

text \<open>
  Claim C10. Take a prepared emission model built without thermal broadening on a grid
  \<open>0 < emin < emax\<close> with at least one channel, with \<open>hc > 0\<close> (so that every selected
  wavelength is positive and \<open>E0\<close> is a quotient of positive numbers). Then
  \<^item> the index computed for an energy \<open>E0\<close> lies in \<open>0 .. nchan-1\<close> exactly when
    \<open>emin \<le> E0 < emax\<close>; in particular it is in range only if \<open>E0\<close> is at least the lowest
    bin edge;
  \<^item> for \<open>E0\<close> below the lowest bin edge the index is \<open>-1\<close>, which as an array index is the
    last channel \<open>nchan-1\<close>: \<^verbatim>\<open>vec[-1] += a\<close> adds the amplitude to the last channel and
    raises nothing;
  \<^item> so the last channel of the line part of \<^verbatim>\<open>_make_spectrum\<close> holds the amplitudes of the
    selected rows with \<open>E0\<close> below \<open>emin\<close> together with those whose \<open>E0\<close> lies in the last
    channel;
  \<^item> every selected row has a positive wavelength;
  \<^item> this happens: on the sample tables with redshift 1 (scale factor 1/2) the helium line
    of wavelength 10 is selected, has \<open>E0\<close> below \<open>emin = 1\<close>, and its amplitude 4 is returned
    in the last channel.
\<close>

theorem line_below_grid_wraps:
  assumes init: "TableApecModel_init ph root_dir e_lo e_hi n vers False = Inr m0"
    and prep: "TableApecModel_prepare_spectrum fs m0 zobs = (m, msgs, None)"
    and hc: "0 < hc ph" and pos: "0 < e_lo" and grid: "e_lo < e_hi" and chan: "0 < n"
    and tab: "line_handle m = Some lh" "b < length lh" "lh ! b = LineHDU rows"
    and win: "minlam m = Some lo" "maxlam m = Some hi" "scale_factor m = Some sf"
  shows "(\<forall>E. 0 \<le> channel_index (ebins m) E \<and> channel_index (ebins m) E \<le> n - 1
               \<longleftrightarrow> e_lo \<le> E \<and> E < e_hi)
       \<and> (\<forall>E. E < e_lo \<longrightarrow> channel_index (ebins m) E = - 1
               \<and> wrap_index n (channel_index (ebins m) E) = n - 1)
       \<and> (\<forall>vec a. length vec = nat n \<longrightarrow>
               add_at vec (- 1) a = Inr (vec[nat n - 1 := vec ! (nat n - 1) + a]))
       \<and> (\<forall>spec. line_spectrum ph m elem b = Inr spec \<longrightarrow>
               spec ! (nat n - 1) =
                 sum_list (map epsilon
                   (filter (\<lambda>r. line_energy ph sf r < e_lo
                                \<or> ebins m ! (nat n - 1) \<le> line_energy ph sf r)
                      (select_lines rows elem lo hi))))
       \<and> (\<forall>r\<in>set (select_lines rows elem lo hi). 0 < lambda r)
       \<and> (0 < (1::real)
          \<and> TableApecModel_prepare_spectrum sample_fs sample_unprepared 1
               = (sample_model 1, [], None)
          \<and> scale_factor (sample_model 1) = Some (1 / 2)
          \<and> minlam (sample_model 1) = Some (12.3984193 / 2)
          \<and> maxlam (sample_model 1) = Some 12.3984193
          \<and> \<lparr>element = 2, lambda = 10, epsilon = 4\<rparr>
               \<in> set (select_lines
                        [\<lparr>element = 2, lambda = 10, epsilon = 4\<rparr>,
                         \<lparr>element = 8, lambda = 8, epsilon = 6\<rparr>,
                         \<lparr>element = 2, lambda = 20, epsilon = 100\<rparr>]
                        2 (12.3984193 / 2) 12.3984193)
          \<and> line_energy sample_physics (1 / 2) \<lparr>element = 2, lambda = 10, epsilon = 4\<rparr> < 1
          \<and> line_spectrum sample_physics (sample_model 1) 2 2 = Inr [0, 4])"
proof -
  note len = prepared_lengths[OF init prep]
  have n: "nchan m = n" "0 \<le> n" and tb: "thermal_broad m = False" using len by simp_all
  have le: "e_lo \<le> e_hi" using grid by simp
  note edges = prepared_edges[OF init prep le]
  have srt: "sorted (ebins m)" and first: "ebins m ! 0 = e_lo" and last: "ebins m ! nat n = e_hi"
    using edges chan by simp_all
  have ne: "ebins m \<noteq> []" and ln: "nat n < length (ebins m)" using len by auto
  have lower: "0 \<le> channel_index (ebins m) E \<longleftrightarrow> e_lo \<le> E" for E
    using channel_index_nonneg_iff[OF srt ne, of E] first by simp
  have upper: "channel_index (ebins m) E \<le> n - 1 \<longleftrightarrow> E < e_hi" for E
    using channel_index_below_iff[OF srt ln, of E] last chan by auto
  have range: "\<forall>E. 0 \<le> channel_index (ebins m) E \<and> channel_index (ebins m) E \<le> n - 1
               \<longleftrightarrow> e_lo \<le> E \<and> E < e_hi"
    using lower upper by simp
  have minus: "channel_index (ebins m) E = - 1" if "E < e_lo" for E
  proof -
    have "\<not> 0 \<le> channel_index (ebins m) E" using lower[of E] that by simp
    then show ?thesis using channel_index_props[OF srt, of E] by linarith
  qed
  have below: "\<forall>E. E < e_lo \<longrightarrow> channel_index (ebins m) E = - 1
               \<and> wrap_index n (channel_index (ebins m) E) = n - 1"
    using minus by (simp add: wrap_index_def)
  have add: "\<forall>vec a. length vec = nat n \<longrightarrow>
               add_at vec (- 1) a = Inr (vec[nat n - 1 := vec ! (nat n - 1) + a])"
  proof (intro allI impI)
    fix vec :: "real list" and a
    assume l: "length vec = nat n"
    have "nat (n - 1) = nat n - 1" using chan by linarith
    then show "add_at vec (- 1) a = Inr (vec[nat n - 1 := vec ! (nat n - 1) + a])"
      using l chan by (simp add: add_at_def wrap_index_def Let_def)
  qed
  have lastch: "\<forall>spec. line_spectrum ph m elem b = Inr spec \<longrightarrow>
               spec ! (nat n - 1) =
                 sum_list (map epsilon
                   (filter (\<lambda>r. line_energy ph sf r < e_lo
                                \<or> ebins m ! (nat n - 1) \<le> line_energy ph sf r)
                      (select_lines rows elem lo hi)))"
  proof (intro allI impI)
    fix spec assume s: "line_spectrum ph m elem b = Inr spec"
    note u = line_spectrum_unbroadened[OF n tb tab win, of ph elem spec, THEN iffD1, OF s]
    have valid: "0 \<le> wrap_index n (channel_index (ebins m) (line_energy ph sf r))
               \<and> wrap_index n (channel_index (ebins m) (line_energy ph sf r)) < n"
      if "r \<in> set (select_lines rows elem lo hi)" for r
      using u that by blast
    have j: "nat n - 1 < nat n" "int (nat n - 1) = n - 1" using chan by auto
    have val: "spec ! (nat n - 1) =
           sum_list (map epsilon
             (filter (\<lambda>r. wrap_index n (channel_index (ebins m) (line_energy ph sf r)) = n - 1)
                (select_lines rows elem lo hi)))"
      using u j by auto
    have same: "wrap_index n (channel_index (ebins m) (line_energy ph sf r)) = n - 1
        \<longleftrightarrow> line_energy ph sf r < e_lo \<or> ebins m ! (nat n - 1) \<le> line_energy ph sf r"
      if r: "r \<in> set (select_lines rows elem lo hi)" for r
    proof -
      define c where "c = channel_index (ebins m) (line_energy ph sf r)"
      have c1: "- 1 \<le> c" using channel_index_props[OF srt, of "line_energy ph sf r"] by (simp add: c_def)
      have v: "0 \<le> wrap_index n c" "wrap_index n c < n" using valid[OF r] by (simp_all add: c_def)
      have lo_iff: "c < 0 \<longleftrightarrow> line_energy ph sf r < e_lo"
        using lower[of "line_energy ph sf r"] by (auto simp: c_def)
      have "nat n - 1 < length (ebins m)" using ln by simp
      from channel_index_below_iff[OF srt this, of "line_energy ph sf r"]
      have hi_iff: "c < n - 1 \<longleftrightarrow> line_energy ph sf r < ebins m ! (nat n - 1)"
        using j by (simp add: c_def)
      have "wrap_index n c = n - 1 \<longleftrightarrow> c < 0 \<or> \<not> c < n - 1"
        using c1 v by (auto simp: wrap_index_def split: if_splits)
      then show ?thesis using lo_iff hi_iff by (auto simp: c_def)
    qed
    have "filter (\<lambda>r. wrap_index n (channel_index (ebins m) (line_energy ph sf r)) = n - 1)
                (select_lines rows elem lo hi)
        = filter (\<lambda>r. line_energy ph sf r < e_lo
                      \<or> ebins m ! (nat n - 1) \<le> line_energy ph sf r)
                (select_lines rows elem lo hi)"
      by (rule filter_cong) (use same in auto)
    then show "spec ! (nat n - 1) =
                 sum_list (map epsilon
                   (filter (\<lambda>r. line_energy ph sf r < e_lo
                                \<or> ebins m ! (nat n - 1) \<le> line_energy ph sf r)
                      (select_lines rows elem lo hi)))"
      using val by simp
  qed
  have sample: "0 < (1::real)
          \<and> TableApecModel_prepare_spectrum sample_fs sample_unprepared 1
               = (sample_model 1, [], None)
          \<and> scale_factor (sample_model 1) = Some (1 / 2)
          \<and> minlam (sample_model 1) = Some (12.3984193 / 2)
          \<and> maxlam (sample_model 1) = Some 12.3984193
          \<and> \<lparr>element = 2, lambda = 10, epsilon = 4\<rparr>
               \<in> set (select_lines
                        [\<lparr>element = 2, lambda = 10, epsilon = 4\<rparr>,
                         \<lparr>element = 8, lambda = 8, epsilon = 6\<rparr>,
                         \<lparr>element = 2, lambda = 20, epsilon = 100\<rparr>]
                        2 (12.3984193 / 2) 12.3984193)
          \<and> line_energy sample_physics (1 / 2) \<lparr>element = 2, lambda = 10, epsilon = 4\<rparr> < 1
          \<and> line_spectrum sample_physics (sample_model 1) 2 2 = Inr [0, 4]"
    by (simp add: sample_prepare sample_redshifted_line)
       (simp add: sample_model_eq select_lines_def line_energy_def sample_physics_def)
  have "0 < lo" using prepared_window_positive[OF init prep hc pos le win(1)] .
  then have wl: "\<forall>r\<in>set (select_lines rows elem lo hi). 0 < lambda r"
    by (auto simp: select_lines_def)
  show ?thesis using range below add lastch wl sample by blast
qed

theorem line_below_grid_wraps_witness:
  "TableApecModel_init sample_physics ''/atomdb'' 1 2 2 ''2.0.2'' False = Inr sample_unprepared
   \<and> TableApecModel_prepare_spectrum sample_fs sample_unprepared 1 = (sample_model 1, [], None)
   \<and> hc sample_physics = 12.3984193 \<and> (0::real) < 1 \<and> (1::real) < 2 \<and> (0::int) < 2
   \<and> ebins (sample_model 1) = [1, 3 / 2, 2]
   \<and> scale_factor (sample_model 1) = Some (1 / 2)
   \<and> line_energy sample_physics (1 / 2) \<lparr>element = 2, lambda = 10, epsilon = 4\<rparr> = 0.619920965
   \<and> channel_index [1, 3 / 2, 2] 0.619920965 = - 1
   \<and> wrap_index 2 (channel_index [1, 3 / 2, 2] 0.619920965) = 1
   \<and> add_at [0, 0] (- 1) 4 = Inr [0, 4]
   \<and> line_spectrum sample_physics (sample_model 1) 2 2 = Inr [0, 4]"
proof -
  let ?rows = "[\<lparr>element = 2, lambda = 10, epsilon = 4\<rparr>,
                \<lparr>element = 8, lambda = 8, epsilon = 6\<rparr>,
                \<lparr>element = 2, lambda = 20, epsilon = 100\<rparr>]"
  have p: "TableApecModel_prepare_spectrum sample_fs sample_unprepared 1 = (sample_model 1, [], None)"
    by (simp add: sample_prepare)
  have g: "0 < hc sample_physics" "(0::real) < 1" "(1::real) < 2" "(0::int) < 2"
    by (simp_all add: sample_physics_def)
  have f: "line_handle (sample_model 1) = Some sample_line_hdus" "2 < length sample_line_hdus"
      "sample_line_hdus ! 2 = LineHDU ?rows"
      "minlam (sample_model 1) = Some (12.3984193 / 2)"
      "maxlam (sample_model 1) = Some 12.3984193"
      "scale_factor (sample_model 1) = Some (1 / 2)"
    by (simp_all add: sample_model_eq sample_line_hdus_def)
  have eb: "ebins (sample_model 1) = [1, 3 / 2, 2]"
    by (simp add: sample_model_eq sample_unprepared_eq)
  note t = line_below_grid_wraps[OF sample_init p g f, unfolded eb]
  have e: "line_energy sample_physics (1 / 2) \<lparr>element = 2, lambda = 10, epsilon = 4\<rparr>
             = 0.619920965"
    by (simp add: line_energy_def sample_physics_def)
  have c: "channel_index [1, 3 / 2, 2] 0.619920965 = - 1
         \<and> wrap_index 2 (channel_index [1, 3 / 2, 2] 0.619920965) = 2 - 1"
    using t[THEN conjunct2, THEN conjunct1, rule_format, of "0.619920965"]
    by (simp add: wrap_index_def)
  have a: "add_at [0, 0] (- 1) 4 = Inr ([0, 0][nat 2 - 1 := [0, 0] ! (nat 2 - 1) + 4])"
    using t[THEN conjunct2, THEN conjunct2, THEN conjunct1, rule_format, of "[0, 0]" 4] by simp
  have l: "line_spectrum sample_physics (sample_model 1) 2 2 = Inr [0, 4]"
    using t[THEN conjunct2, THEN conjunct2, THEN conjunct2, THEN conjunct2, THEN conjunct2]
    by simp
  have h: "hc sample_physics = 12.3984193" by (simp add: sample_physics_def)
  show ?thesis using sample_init p h eb f(6) e c a l by (simp add: wrap_index_def)
qed

end
